theory Spec2Isabelle
  imports Main "HOL-Library.AList"
begin

section \<open>JavaScript values used by the SSH layer\<close>

text \<open>
  The server is JavaScript. The model keeps the pieces of the language that the code
  of \<^verbatim>\<open>SSHConnection\<close>, \<^verbatim>\<open>SSHManager\<close>, \<^verbatim>\<open>SSHHandler\<close> and \<^verbatim>\<open>AuthManager\<close> relies on:
  \<^item> a value that may be \<^verbatim>\<open>undefined\<close> is an \<open>option\<close>; truthiness (\<^verbatim>\<open>x || d\<close>,
    \<^verbatim>\<open>if (x)\<close>, \<^verbatim>\<open>!x\<close>) is written out: the empty string, the number 0 and
    \<^verbatim>\<open>undefined\<close> are falsy, objects are truthy;
  \<^item> a \<^verbatim>\<open>Map\<close> is an association list in insertion order (\<^verbatim>\<open>set\<close> on an existing key
    keeps its position, on a new key appends; iteration follows the list);
  \<^item> objects with identity (connections, streams, listeners, promises) live in stores
    indexed by a reference number, with a counter for allocation;
  \<^item> a thrown error is a value of type \<open>js_error\<close>.
\<close>

datatype js_error = Error string | TypeError string | RangeError string

fun err_message :: "js_error \<Rightarrow> string" where
  "err_message (Error m) = m"
| "err_message (TypeError m) = m"
| "err_message (RangeError m) = m"

definition truthy_str :: "string option \<Rightarrow> bool" where
  "truthy_str v = (case v of None \<Rightarrow> False | Some s \<Rightarrow> s \<noteq> [])"

definition or_str :: "string option \<Rightarrow> string \<Rightarrow> string" where
  "or_str v d = (case v of None \<Rightarrow> d | Some s \<Rightarrow> if s = [] then d else s)"

definition or_num :: "nat option \<Rightarrow> nat \<Rightarrow> nat" where
  "or_num v d = (case v of None \<Rightarrow> d | Some n \<Rightarrow> if n = 0 then d else n)"

text \<open>Decimal rendering of a number inside a template string.\<close>

definition digit_char :: "nat \<Rightarrow> char" where
  "digit_char d = ''0123456789'' ! d"

fun string_of_nat :: "nat \<Rightarrow> string" where
  "string_of_nat n =
     (if n < 10 then [digit_char n] else string_of_nat (n div 10) @ [digit_char (n mod 10)])"

definition template_num :: "nat option \<Rightarrow> string" where
  "template_num v = (case v of None \<Rightarrow> ''undefined'' | Some n \<Rightarrow> string_of_nat n)"

subsection \<open>Map\<close>

definition map_get :: "('k \<times> 'v) list \<Rightarrow> 'k \<Rightarrow> 'v option" where
  "map_get m k = map_of m k"

definition map_has :: "('k \<times> 'v) list \<Rightarrow> 'k \<Rightarrow> bool" where
  "map_has m k = (case map_of m k of None \<Rightarrow> False | Some _ \<Rightarrow> True)"

definition map_set :: "('k \<times> 'v) list \<Rightarrow> 'k \<Rightarrow> 'v \<Rightarrow> ('k \<times> 'v) list" where
  "map_set m k v = AList.update k v m"

definition map_delete :: "('k \<times> 'v) list \<Rightarrow> 'k \<Rightarrow> ('k \<times> 'v) list" where
  "map_delete m k = AList.delete k m"

definition map_keys :: "('k \<times> 'v) list \<Rightarrow> 'k list" where
  "map_keys m = map fst m"

definition map_values :: "('k \<times> 'v) list \<Rightarrow> 'v list" where
  "map_values m = map snd m"

section \<open>Protocol messages\<close>

text \<open>
  An inbound message is \<^verbatim>\<open>{ type, data? }\<close>. The handlers read \<^verbatim>\<open>message.data\<close> with
  optional chaining, destructuring and plain property access, so the model keeps the
  three shapes that behave differently: no data, a bare string (the legacy form of
  \<^verbatim>\<open>ssh_input\<close>) and an object whose fields may each be missing.
\<close>

record msg_fields =
  d_sessionId :: "string option"
  d_input :: "string option"
  d_cols :: "nat option"
  d_rows :: "nat option"
  d_host :: "string option"
  d_port :: "nat option"
  d_username :: "string option"
  d_privateKey :: "string option"
  d_password :: "string option"
  d_localPort :: "nat option"
  d_remoteHost :: "string option"
  d_remotePort :: "nat option"

definition no_fields :: msg_fields where
  "no_fields = \<lparr>d_sessionId = None, d_input = None, d_cols = None, d_rows = None,
     d_host = None, d_port = None, d_username = None, d_privateKey = None,
     d_password = None, d_localPort = None, d_remoteHost = None, d_remotePort = None\<rparr>"

datatype payload = NoData | StrData string | ObjData msg_fields

record message =
  msg_type :: string
  msg_data :: payload

text \<open>\<^verbatim>\<open>message.data?.f\<close>: undefined when there is no data or the data is a string.\<close>

definition opt_field :: "(msg_fields \<Rightarrow> 'a option) \<Rightarrow> payload \<Rightarrow> 'a option" where
  "opt_field f d = (case d of ObjData o' \<Rightarrow> f o' | _ \<Rightarrow> None)"

text \<open>
  The TypeErrors of the engine (V8) for a property read and for a destructuring of
  \<^verbatim>\<open>undefined\<close>; the property name is quoted in the text.
\<close>

definition quoted :: "string \<Rightarrow> string" where
  "quoted s = [CHR 0x27] @ s @ [CHR 0x27]"

definition read_error :: "string \<Rightarrow> js_error" where
  "read_error name =
     TypeError (''Cannot read properties of undefined (reading '' @ quoted name @ '')'')"

definition destructure_error :: "string \<Rightarrow> js_error" where
  "destructure_error name =
     TypeError (''Cannot destructure property '' @ quoted name @ '' of ''
                @ quoted ''message.data'' @ '' as it is undefined.'')"

text \<open>\<^verbatim>\<open>message.data.f\<close>: a TypeError when there is no data.\<close>

definition req_field ::
  "string \<Rightarrow> (msg_fields \<Rightarrow> 'a option) \<Rightarrow> payload \<Rightarrow> js_error + 'a option" where
  "req_field name f d =
     (case d of
        NoData \<Rightarrow> Inl (read_error name)
      | StrData _ \<Rightarrow> Inr None
      | ObjData o' \<Rightarrow> Inr (f o'))"

text \<open>
  \<^verbatim>\<open>const { f, ... } = message.data\<close>, where \<^verbatim>\<open>f\<close> is the first name of the pattern: a
  TypeError when there is no data.
\<close>

definition destructure ::
  "string \<Rightarrow> (msg_fields \<Rightarrow> 'a option) \<Rightarrow> payload \<Rightarrow> js_error + 'a option" where
  "destructure name f d =
     (case d of
        NoData \<Rightarrow> Inl (destructure_error name)
      | StrData _ \<Rightarrow> Inr None
      | ObjData o' \<Rightarrow> Inr (f o'))"

text \<open>Outbound messages, as passed to \<^verbatim>\<open>sendFn(ws, msg)\<close>.\<close>

datatype out_msg =
    SshConnectResponse bool "string option"
  | SshShellStarted string
  | SshOutput string string
  | SshShellClosed string "bool option"
  | SshListShellsResponse "string list"
  | SshStatus string string
  | SshPortForwardResponse bool "nat option" "string option"

section \<open>The objects of the SSH layer\<close>

text \<open>
  The callbacks that \<^verbatim>\<open>SSHHandler.handleStartShell\<close> passes to \<^verbatim>\<open>startShell\<close> are closures
  over the websocket and the session id; they are kept as data and interpreted by
  \<open>run_onData\<close> and \<open>run_onClose\<close>.
\<close>

datatype on_data = SendOutput nat string

datatype on_close = SendShellClosed nat string

text \<open>
  A shell stream of the ssh2 library (a channel). The model records the calls the code
  makes on it (\<^verbatim>\<open>write\<close>, \<^verbatim>\<open>setWindow\<close>, \<^verbatim>\<open>close\<close>) and the variables its event handlers
  close over: the owning connection (\<^verbatim>\<open>this\<close>), the session id and the two callbacks.
\<close>

record stream =
  st_conn :: nat
  st_sessionId :: string
  st_onData :: on_data
  st_onClose :: on_close
  st_written :: "string option list"
  st_windows :: "(nat option \<times> nat option) list"
  st_close_calls :: nat

record forward_config =
  localPort :: "nat option"
  remoteHost :: "string option"
  remotePort :: "nat option"

text \<open>
  A listener created by \<^verbatim>\<open>net.createServer\<close> in \<^verbatim>\<open>setupPortForward\<close>: the configuration
  and promise its handlers close over, the port passed to \<^verbatim>\<open>listen\<close> (also when that
  call throws), and the calls of \<^verbatim>\<open>close\<close>.
\<close>

record server =
  sv_conn :: nat
  sv_config :: forward_config
  sv_promise :: nat
  sv_listen :: "nat option"
  sv_close_calls :: nat

record ssh_config =
  host :: "string option"
  port :: "nat option"
  username :: "string option"
  privateKey :: "string option"
  password :: "string option"

text \<open>The object passed to \<^verbatim>\<open>client.connect\<close>; times are in milliseconds.\<close>

record connection_config =
  cc_host :: "string option"
  cc_port :: "nat option"
  cc_username :: "string option"
  cc_readyTimeout :: nat
  cc_keepaliveInterval :: nat
  cc_keepaliveCountMax :: nat
  cc_privateKey :: "string option"
  cc_password :: "string option"

text \<open>
  The ssh2 \<^verbatim>\<open>Client\<close> owned by a connection: the promises of the handler triples that
  \<^verbatim>\<open>connect\<close> has registered with \<^verbatim>\<open>client.on\<close> (one per call, never removed), the
  configurations passed to \<^verbatim>\<open>client.connect\<close> and the calls of \<^verbatim>\<open>client.end\<close>.
\<close>

record ssh2_client =
  cl_listeners :: "nat list"
  cl_connect_calls :: "connection_config list"
  cl_end_calls :: nat

record ssh_connection =
  shells :: "(string \<times> nat) list"
  portForwards :: "(nat option \<times> nat) list"
  connected :: bool
  client :: ssh2_client

text \<open>A pending \<^verbatim>\<open>client.shell(opts, callback)\<close> request and what its callback closes over.\<close>

record shell_req =
  sr_conn :: nat
  sr_sessionId :: string
  sr_onData :: on_data
  sr_onClose :: on_close
  sr_cols :: nat
  sr_rows :: nat
  sr_promise :: nat

text \<open>
  Promises settle once. The code that awaits one (the rest of an \<^verbatim>\<open>async\<close> handler of
  \<^verbatim>\<open>SSHHandler\<close>) is kept as a continuation.
\<close>

datatype pstate = Pending | Fulfilled | Rejected js_error

datatype cont =
    AfterConnect nat
  | AfterStartShell nat string
  | AfterPortForward nat "nat option"

record promise =
  p_state :: pstate
  p_waiter :: "cont option"

text \<open>
  The state of the process: the registry of \<^verbatim>\<open>SSHManager\<close> (client id to connection),
  the stores of objects, and the messages sent so far through \<^verbatim>\<open>sendFn\<close>, oldest first.
\<close>

record world =
  connections :: "(string \<times> nat) list"
  conn_heap :: "nat \<Rightarrow> ssh_connection"
  next_conn :: nat
  stream_heap :: "nat \<Rightarrow> stream"
  next_stream :: nat
  server_heap :: "nat \<Rightarrow> server"
  next_server :: nat
  shell_reqs :: "nat \<Rightarrow> shell_req"
  next_req :: nat
  promise_heap :: "nat \<Rightarrow> promise"
  next_promise :: nat
  outbox :: "(nat \<times> out_msg) list"

definition new_Client :: ssh2_client where
  "new_Client = \<lparr>cl_listeners = [], cl_connect_calls = [], cl_end_calls = 0\<rparr>"

definition new_SSHConnection :: ssh_connection where
  "new_SSHConnection =
     \<lparr>shells = [], portForwards = [], connected = False, client = new_Client\<rparr>"

definition init_world :: world where
  "init_world =
     \<lparr>connections = [],
      conn_heap = (\<lambda>_. new_SSHConnection), next_conn = 0,
      stream_heap = (\<lambda>_. \<lparr>st_conn = 0, st_sessionId = [], st_onData = SendOutput 0 [],
         st_onClose = SendShellClosed 0 [], st_written = [], st_windows = [],
         st_close_calls = 0\<rparr>), next_stream = 0,
      server_heap = (\<lambda>_. \<lparr>sv_conn = 0,
         sv_config = \<lparr>localPort = None, remoteHost = None, remotePort = None\<rparr>,
         sv_promise = 0, sv_listen = None, sv_close_calls = 0\<rparr>), next_server = 0,
      shell_reqs = (\<lambda>_. \<lparr>sr_conn = 0, sr_sessionId = [], sr_onData = SendOutput 0 [],
         sr_onClose = SendShellClosed 0 [], sr_cols = 0, sr_rows = 0, sr_promise = 0\<rparr>),
      next_req = 0,
      promise_heap = (\<lambda>_. \<lparr>p_state = Pending, p_waiter = None\<rparr>), next_promise = 0,
      outbox = []\<rparr>"

subsection \<open>Store access\<close>

definition upd_conn :: "nat \<Rightarrow> (ssh_connection \<Rightarrow> ssh_connection) \<Rightarrow> world \<Rightarrow> world" where
  "upd_conn c f w = w\<lparr>conn_heap := (conn_heap w)(c := f (conn_heap w c))\<rparr>"

definition upd_stream :: "nat \<Rightarrow> (stream \<Rightarrow> stream) \<Rightarrow> world \<Rightarrow> world" where
  "upd_stream h f w = w\<lparr>stream_heap := (stream_heap w)(h := f (stream_heap w h))\<rparr>"

definition upd_server :: "nat \<Rightarrow> (server \<Rightarrow> server) \<Rightarrow> world \<Rightarrow> world" where
  "upd_server s f w = w\<lparr>server_heap := (server_heap w)(s := f (server_heap w s))\<rparr>"

definition upd_promise :: "nat \<Rightarrow> (promise \<Rightarrow> promise) \<Rightarrow> world \<Rightarrow> world" where
  "upd_promise p f w = w\<lparr>promise_heap := (promise_heap w)(p := f (promise_heap w p))\<rparr>"

definition send :: "nat \<Rightarrow> out_msg \<Rightarrow> world \<Rightarrow> world" where
  "send ws m w = w\<lparr>outbox := outbox w @ [(ws, m)]\<rparr>"

text \<open>The library calls recorded on streams and listeners.\<close>

definition stream_write :: "nat \<Rightarrow> string option \<Rightarrow> world \<Rightarrow> world" where
  "stream_write h d = upd_stream h (\<lambda>s. s\<lparr>st_written := st_written s @ [d]\<rparr>)"

definition stream_setWindow :: "nat \<Rightarrow> nat option \<Rightarrow> nat option \<Rightarrow> world \<Rightarrow> world" where
  "stream_setWindow h r c = upd_stream h (\<lambda>s. s\<lparr>st_windows := st_windows s @ [(r, c)]\<rparr>)"

definition stream_close :: "nat \<Rightarrow> world \<Rightarrow> world" where
  "stream_close h = upd_stream h (\<lambda>s. s\<lparr>st_close_calls := Suc (st_close_calls s)\<rparr>)"

definition server_close :: "nat \<Rightarrow> world \<Rightarrow> world" where
  "server_close s = upd_server s (\<lambda>v. v\<lparr>sv_close_calls := Suc (sv_close_calls v)\<rparr>)"

subsection \<open>Promises and the continuations of SSHHandler\<close>

text \<open>
  What each \<^verbatim>\<open>async\<close> handler does after its \<^verbatim>\<open>await\<close>: the statement after it when the
  promise is fulfilled, the \<^verbatim>\<open>catch\<close> block when it is rejected with \<open>e\<close>.
\<close>

fun run_cont :: "cont \<Rightarrow> js_error option \<Rightarrow> world \<Rightarrow> world" where
  "run_cont (AfterConnect ws) None w = send ws (SshConnectResponse True None) w"
| "run_cont (AfterConnect ws) (Some e) w =
     send ws (SshConnectResponse False (Some (err_message e))) w"
| "run_cont (AfterStartShell ws sid) None w = send ws (SshShellStarted sid) w"
| "run_cont (AfterStartShell ws sid) (Some e) w =
     send ws (SshStatus ''error'' (err_message e)) w"
| "run_cont (AfterPortForward ws lp) None w =
     send ws (SshPortForwardResponse True lp None) w"
| "run_cont (AfterPortForward ws lp) (Some e) w =
     send ws (SshPortForwardResponse False lp (Some (err_message e))) w"

definition new_promise :: "world \<Rightarrow> nat \<times> world" where
  "new_promise w =
     (next_promise w,
      w\<lparr>promise_heap := (promise_heap w)(next_promise w := \<lparr>p_state = Pending, p_waiter = None\<rparr>),
        next_promise := Suc (next_promise w)\<rparr>)"

definition resolve :: "nat \<Rightarrow> world \<Rightarrow> world" where
  "resolve p w =
     (case p_state (promise_heap w p) of
        Pending \<Rightarrow>
          (let w' = upd_promise p (\<lambda>q. q\<lparr>p_state := Fulfilled\<rparr>) w
           in case p_waiter (promise_heap w p) of
                None \<Rightarrow> w'
              | Some k \<Rightarrow> run_cont k None w')
      | _ \<Rightarrow> w)"

definition reject :: "nat \<Rightarrow> js_error \<Rightarrow> world \<Rightarrow> world" where
  "reject p e w =
     (case p_state (promise_heap w p) of
        Pending \<Rightarrow>
          (let w' = upd_promise p (\<lambda>q. q\<lparr>p_state := Rejected e\<rparr>) w
           in case p_waiter (promise_heap w p) of
                None \<Rightarrow> w'
              | Some k \<Rightarrow> run_cont k (Some e) w')
      | _ \<Rightarrow> w)"

definition await :: "nat \<Rightarrow> cont \<Rightarrow> world \<Rightarrow> world" where
  "await p k w =
     (case p_state (promise_heap w p) of
        Pending \<Rightarrow> upd_promise p (\<lambda>q. q\<lparr>p_waiter := Some k\<rparr>) w
      | Fulfilled \<Rightarrow> run_cont k None w
      | Rejected e \<Rightarrow> run_cont k (Some e) w)"

section \<open>SSHConnection\<close>

text \<open>
  Every method takes the reference \<open>c\<close> of the connection (\<^verbatim>\<open>this\<close>) and the world.
  A method that returns a promise returns its reference; an immediate \<^verbatim>\<open>reject\<close> leaves
  that promise rejected on return.
\<close>

definition isConnected :: "nat \<Rightarrow> world \<Rightarrow> bool" where
  "isConnected c w = connected (conn_heap w c)"

text \<open>
  \<^verbatim>\<open>connectionConfig\<close> of \<^verbatim>\<open>connect\<close>: \<^verbatim>\<open>readyTimeout: 30000\<close>, keep-alive every 10000 ms,
  3 missed keep-alives; the private key wins over the password, and an empty string
  counts as absent.
\<close>

definition connectionConfig :: "ssh_config \<Rightarrow> connection_config" where
  "connectionConfig config =
     (let base = \<lparr>cc_host = host config, cc_port = port config,
                  cc_username = username config, cc_readyTimeout = 30000,
                  cc_keepaliveInterval = 10000, cc_keepaliveCountMax = 3,
                  cc_privateKey = None, cc_password = None\<rparr>
      in if truthy_str (privateKey config) then base\<lparr>cc_privateKey := privateKey config\<rparr>
         else if truthy_str (password config) then base\<lparr>cc_password := password config\<rparr>
         else base)"

definition connect :: "nat \<Rightarrow> ssh_config \<Rightarrow> world \<Rightarrow> nat \<times> world" where
  "connect c config w =
     (let (p, w1) = new_promise w
      in (p, upd_conn c (\<lambda>k. k\<lparr>client := (client k)
                \<lparr>cl_listeners := cl_listeners (client k) @ [p],
                 cl_connect_calls := cl_connect_calls (client k) @ [connectionConfig config]\<rparr>\<rparr>) w1))"

text \<open>The handlers registered by \<^verbatim>\<open>connect\<close>, run for every registration in order.\<close>

definition on_client_ready :: "nat \<Rightarrow> world \<Rightarrow> world" where
  "on_client_ready c w =
     foldl (\<lambda>v p. resolve p (upd_conn c (\<lambda>k. k\<lparr>connected := True\<rparr>) v)) w
       (cl_listeners (client (conn_heap w c)))"

definition on_client_error :: "nat \<Rightarrow> js_error \<Rightarrow> world \<Rightarrow> world" where
  "on_client_error c e w =
     foldl (\<lambda>v p. reject p e (upd_conn c (\<lambda>k. k\<lparr>connected := False\<rparr>) v)) w
       (cl_listeners (client (conn_heap w c)))"

definition on_client_close :: "nat \<Rightarrow> world \<Rightarrow> world" where
  "on_client_close c w =
     foldl (\<lambda>v p. upd_conn c (\<lambda>k. k\<lparr>connected := False\<rparr>) v) w
       (cl_listeners (client (conn_heap w c)))"

definition startShell ::
  "nat \<Rightarrow> string \<Rightarrow> on_data \<Rightarrow> on_close \<Rightarrow> nat \<Rightarrow> nat \<Rightarrow> world \<Rightarrow> nat \<times> world" where
  "startShell c sessionId onData onClose cols rows w =
     (let (p, w1) = new_promise w
      in if \<not> connected (conn_heap w1 c) then
           (p, reject p (Error ''SSH not connected'') w1)
         else if map_has (shells (conn_heap w1 c)) sessionId then
           (p, reject p (Error (''Shell session '' @ sessionId @ '' already exists'')) w1)
         else
           (p, w1\<lparr>shell_reqs := (shell_reqs w1)(next_req w1 :=
                    \<lparr>sr_conn = c, sr_sessionId = sessionId, sr_onData = onData,
                     sr_onClose = onClose, sr_cols = cols, sr_rows = rows, sr_promise = p\<rparr>),
                  next_req := Suc (next_req w1)\<rparr>))"

text \<open>
  The callback of \<^verbatim>\<open>client.shell\<close> for request \<open>r\<close>: with a stream (a new object, whose
  handlers are registered here) or with an error.
\<close>

definition on_shell_opened :: "nat \<Rightarrow> world \<Rightarrow> world" where
  "on_shell_opened r w =
     (let q = shell_reqs w r;
          h = next_stream w;
          w1 = w\<lparr>stream_heap := (stream_heap w)(h :=
                   \<lparr>st_conn = sr_conn q, st_sessionId = sr_sessionId q,
                    st_onData = sr_onData q, st_onClose = sr_onClose q,
                    st_written = [], st_windows = [], st_close_calls = 0\<rparr>),
                 next_stream := Suc h\<rparr>;
          w2 = upd_conn (sr_conn q) (\<lambda>k. k\<lparr>shells := map_set (shells k) (sr_sessionId q) h\<rparr>) w1
      in resolve (sr_promise q) w2)"

definition on_shell_failed :: "nat \<Rightarrow> js_error \<Rightarrow> world \<Rightarrow> world" where
  "on_shell_failed r e w = reject (sr_promise (shell_reqs w r)) e w"

fun run_onData :: "on_data \<Rightarrow> string \<Rightarrow> world \<Rightarrow> world" where
  "run_onData (SendOutput ws sessionId) d w = send ws (SshOutput sessionId d) w"

fun run_onClose :: "on_close \<Rightarrow> world \<Rightarrow> world" where
  "run_onClose (SendShellClosed ws sessionId) w = send ws (SshShellClosed sessionId None) w"

text \<open>The \<^verbatim>\<open>'data'\<close> handlers (stdout and stderr alike) and the \<^verbatim>\<open>'close'\<close> handler of a stream.\<close>

definition on_stream_data :: "nat \<Rightarrow> string \<Rightarrow> world \<Rightarrow> world" where
  "on_stream_data h d w = run_onData (st_onData (stream_heap w h)) d w"

definition on_stream_close :: "nat \<Rightarrow> world \<Rightarrow> world" where
  "on_stream_close h w =
     (let s = stream_heap w h;
          w1 = upd_conn (st_conn s) (\<lambda>k. k\<lparr>shells := map_delete (shells k) (st_sessionId s)\<rparr>) w
      in run_onClose (st_onClose s) w1)"

definition writeToShell :: "nat \<Rightarrow> string \<Rightarrow> string option \<Rightarrow> world \<Rightarrow> bool \<times> world" where
  "writeToShell c sessionId d w =
     (case map_get (shells (conn_heap w c)) sessionId of
        Some shell \<Rightarrow> (True, stream_write shell d w)
      | None \<Rightarrow> (False, w))"

definition resizeShell ::
  "nat \<Rightarrow> string \<Rightarrow> nat option \<Rightarrow> nat option \<Rightarrow> world \<Rightarrow> bool \<times> world" where
  "resizeShell c sessionId cols rows w =
     (case map_get (shells (conn_heap w c)) sessionId of
        Some shell \<Rightarrow> (True, stream_setWindow shell rows cols w)
      | None \<Rightarrow> (False, w))"

definition closeShell :: "nat \<Rightarrow> string \<Rightarrow> world \<Rightarrow> bool \<times> world" where
  "closeShell c sessionId w =
     (case map_get (shells (conn_heap w c)) sessionId of
        Some shell \<Rightarrow>
          (True, upd_conn c (\<lambda>k. k\<lparr>shells := map_delete (shells k) sessionId\<rparr>)
                   (stream_close shell w))
      | None \<Rightarrow> (False, w))"

definition getActiveShells :: "nat \<Rightarrow> world \<Rightarrow> string list" where
  "getActiveShells c w = map_keys (shells (conn_heap w c))"

definition hasShell :: "nat \<Rightarrow> string \<Rightarrow> world \<Rightarrow> bool" where
  "hasShell c sessionId w = map_has (shells (conn_heap w c)) sessionId"

text \<open>
  The legacy pair \<^verbatim>\<open>write\<close> and \<^verbatim>\<open>resize\<close>: \<^verbatim>\<open>this.shells.values().next().value\<close> is the
  first shell inserted.
\<close>

definition write_legacy :: "nat \<Rightarrow> string option \<Rightarrow> world \<Rightarrow> world" where
  "write_legacy c d w =
     (case map_values (shells (conn_heap w c)) of
        [] \<Rightarrow> w
      | firstShell # _ \<Rightarrow> stream_write firstShell d w)"

definition resize :: "nat \<Rightarrow> nat option \<Rightarrow> nat option \<Rightarrow> world \<Rightarrow> world" where
  "resize c cols rows w =
     (case map_values (shells (conn_heap w c)) of
        [] \<Rightarrow> w
      | firstShell # _ \<Rightarrow> stream_setWindow firstShell rows cols w)"

text \<open>
  \<^verbatim>\<open>server.listen(port, '127.0.0.1', callback)\<close> of Node's \<^verbatim>\<open>net\<close> checks the port before it
  binds: a number above 65535 makes the call throw a RangeError (\<^verbatim>\<open>ERR_SOCKET_BAD_PORT\<close>);
  \<^verbatim>\<open>undefined\<close> and 0 ask for any free port and are accepted.
\<close>

definition listen_throws :: "nat option \<Rightarrow> js_error option" where
  "listen_throws lp =
     (case lp of
        None \<Rightarrow> None
      | Some n \<Rightarrow>
          if 65535 < n then
            Some (RangeError (''options.port should be >= 0 and < 65536. Received type number (''
                              @ string_of_nat n @ '').''))
          else None)"

text \<open>
  \<^verbatim>\<open>setupPortForward\<close> creates the listener and calls \<^verbatim>\<open>listen\<close>. A bind can fail in two
  ways: \<^verbatim>\<open>listen\<close> throws inside the promise executor, which rejects the promise on
  return, or the listener reports an \<^verbatim>\<open>'error'\<close> event later, whose handler rejects the
  promise. The forward is registered only by the \<^verbatim>\<open>listen\<close> callback. The bridging of
  accepted sockets touches neither map and is left out.
\<close>

definition setupPortForward :: "nat \<Rightarrow> forward_config \<Rightarrow> world \<Rightarrow> nat \<times> world" where
  "setupPortForward c config w =
     (let (p, w1) = new_promise w
      in if \<not> connected (conn_heap w1 c) then
           (p, reject p (Error ''SSH not connected'') w1)
         else if map_has (portForwards (conn_heap w1 c)) (localPort config) then
           (p, reject p (Error (''Port '' @ template_num (localPort config)
                                  @ '' is already forwarded'')) w1)
         else
           (let w2 = w1\<lparr>server_heap := (server_heap w1)(next_server w1 :=
                          \<lparr>sv_conn = c, sv_config = config, sv_promise = p,
                           sv_listen = localPort config, sv_close_calls = 0\<rparr>),
                        next_server := Suc (next_server w1)\<rparr>
            in case listen_throws (localPort config) of
                 Some e \<Rightarrow> (p, reject p e w2)
               | None \<Rightarrow> (p, w2)))"

definition on_server_listening :: "nat \<Rightarrow> world \<Rightarrow> world" where
  "on_server_listening s w =
     (let v = server_heap w s;
          w1 = upd_conn (sv_conn v)
                 (\<lambda>k. k\<lparr>portForwards := map_set (portForwards k) (localPort (sv_config v)) s\<rparr>) w
      in resolve (sv_promise v) w1)"

definition on_server_error :: "nat \<Rightarrow> js_error \<Rightarrow> world \<Rightarrow> world" where
  "on_server_error s e w = reject (sv_promise (server_heap w s)) e w"

definition stopPortForward :: "nat \<Rightarrow> nat option \<Rightarrow> world \<Rightarrow> world" where
  "stopPortForward c lp w =
     (case map_get (portForwards (conn_heap w c)) lp of
        Some srv \<Rightarrow>
          upd_conn c (\<lambda>k. k\<lparr>portForwards := map_delete (portForwards k) lp\<rparr>)
            (server_close srv w)
      | None \<Rightarrow> w)"

definition disconnect :: "nat \<Rightarrow> world \<Rightarrow> world" where
  "disconnect c w =
     (let w1 = foldl (\<lambda>v shell. stream_close shell v) w (map_values (shells (conn_heap w c)));
          w2 = upd_conn c (\<lambda>k. k\<lparr>shells := []\<rparr>) w1;
          w3 = foldl (\<lambda>v srv. server_close srv v) w2 (map_values (portForwards (conn_heap w2 c)));
          w4 = upd_conn c (\<lambda>k. k\<lparr>portForwards := []\<rparr>) w3
      in if connected (conn_heap w4 c) then
           upd_conn c (\<lambda>k. k\<lparr>client := (client k)\<lparr>cl_end_calls := Suc (cl_end_calls (client k))\<rparr>,
                               connected := False\<rparr>) w4
         else w4)"

section \<open>SSHManager\<close>

definition getConnection :: "string \<Rightarrow> world \<Rightarrow> nat \<times> world" where
  "getConnection clientId w =
     (case map_get (connections w) clientId of
        Some connection \<Rightarrow> (connection, w)
      | None \<Rightarrow>
          (let connection = next_conn w
           in (connection,
               w\<lparr>conn_heap := (conn_heap w)(connection := new_SSHConnection),
                 next_conn := Suc connection,
                 connections := map_set (connections w) clientId connection\<rparr>)))"

definition hasConnection :: "string \<Rightarrow> world \<Rightarrow> bool" where
  "hasConnection clientId w = map_has (connections w) clientId"

definition removeConnection :: "string \<Rightarrow> world \<Rightarrow> world" where
  "removeConnection clientId w =
     (case map_get (connections w) clientId of
        Some connection \<Rightarrow>
          (let w1 = disconnect connection w
           in w1\<lparr>connections := map_delete (connections w1) clientId\<rparr>)
      | None \<Rightarrow> w)"

definition cleanup :: "world \<Rightarrow> world" where
  "cleanup w =
     (foldl (\<lambda>v connection. disconnect connection v) w (map_values (connections w)))
       \<lparr>connections := []\<rparr>"

text \<open>Every reference held by the registry has been allocated.\<close>

definition registry_ok :: "world \<Rightarrow> bool" where
  "registry_ok w = list_all (\<lambda>r. r < next_conn w) (map_values (connections w))"

section \<open>SSHHandler\<close>

text \<open>
  A handler returns the error it throws, if any, and the world it leaves. The three
  \<^verbatim>\<open>async\<close> handlers run up to their \<^verbatim>\<open>await\<close>; the rest runs when the promise settles
  (\<open>run_cont\<close>).
\<close>

definition canHandle :: "string \<Rightarrow> bool" where
  "canHandle messageType = (take 4 messageType = ''ssh_'')"

definition handleConnect :: "nat \<Rightarrow> string \<Rightarrow> message \<Rightarrow> world \<Rightarrow> js_error option \<times> world" where
  "handleConnect ws clientId message w =
     (let d = msg_data message
      in case destructure ''host'' d_host d of
           Inl e \<Rightarrow> (None, send ws (SshConnectResponse False (Some (err_message e))) w)
         | Inr h \<Rightarrow>
             (let config = \<lparr>host = h, port = opt_field d_port d,
                            username = opt_field d_username d,
                            privateKey = opt_field d_privateKey d,
                            password = opt_field d_password d\<rparr>;
                  (connection, w1) = getConnection clientId w;
                  (p, w2) = connect connection config w1
              in (None, await p (AfterConnect ws) w2)))"

definition handleStartShell :: "nat \<Rightarrow> string \<Rightarrow> message \<Rightarrow> world \<Rightarrow> js_error option \<times> world" where
  "handleStartShell ws clientId message w =
     (let (connection, w1) = getConnection clientId w
      in if \<not> isConnected connection w1 then
           (None, send ws (SshStatus ''error'' ''SSH not connected'') w1)
         else
           (let sessionId = or_str (opt_field d_sessionId (msg_data message)) ''default'';
                cols = or_num (opt_field d_cols (msg_data message)) 80;
                rows = or_num (opt_field d_rows (msg_data message)) 24;
                (p, w2) = startShell connection sessionId (SendOutput ws sessionId)
                            (SendShellClosed ws sessionId) cols rows w1
            in (None, await p (AfterStartShell ws sessionId) w2)))"

text \<open>
  \<^verbatim>\<open>const input = message.data?.input || message.data\<close>: a non-empty \<^verbatim>\<open>input\<close> field,
  otherwise \<^verbatim>\<open>message.data\<close> itself (a string, an object or nothing).
\<close>

datatype input_val = InStr string | InObj msg_fields | InUndefined

definition input_of :: "payload \<Rightarrow> input_val" where
  "input_of d =
     (case d of
        NoData \<Rightarrow> InUndefined
      | StrData s \<Rightarrow> InStr s
      | ObjData o' \<Rightarrow>
          (case d_input o' of
             None \<Rightarrow> InObj o'
           | Some i \<Rightarrow> if i = [] then InObj o' else InStr i))"

text \<open>
  \<^verbatim>\<open>typeof input === 'string' ? input : input.input\<close>: the value written, or the TypeError
  of reading \<^verbatim>\<open>.input\<close> of \<^verbatim>\<open>undefined\<close>.
\<close>

definition input_arg :: "input_val \<Rightarrow> js_error + string option" where
  "input_arg i =
     (case i of
        InStr s \<Rightarrow> Inr (Some s)
      | InObj o' \<Rightarrow> Inr (d_input o')
      | InUndefined \<Rightarrow> Inl (read_error ''input''))"

definition handleInput :: "string \<Rightarrow> message \<Rightarrow> world \<Rightarrow> js_error option \<times> world" where
  "handleInput clientId message w =
     (let (connection, w1) = getConnection clientId w
      in if isConnected connection w1 then
           (let sessionId = or_str (opt_field d_sessionId (msg_data message)) ''default''
            in case input_arg (input_of (msg_data message)) of
                 Inl e \<Rightarrow> (Some e, w1)
               | Inr d \<Rightarrow>
                   (let (ok, w2) = writeToShell connection sessionId d w1
                    in if \<not> ok then (None, write_legacy connection d w2) else (None, w2)))
         else (None, w1))"

definition handleResize :: "string \<Rightarrow> message \<Rightarrow> world \<Rightarrow> js_error option \<times> world" where
  "handleResize clientId message w =
     (let (connection, w1) = getConnection clientId w
      in if isConnected connection w1 then
           (case req_field ''cols'' d_cols (msg_data message) of
              Inl e \<Rightarrow> (Some e, w1)
            | Inr cols \<Rightarrow>
                (let rows = opt_field d_rows (msg_data message)
                 in case opt_field d_sessionId (msg_data message) of
                      None \<Rightarrow> (None, resize connection cols rows w1)
                    | Some sessionId \<Rightarrow>
                        if sessionId \<noteq> [] then
                          (None, snd (resizeShell connection sessionId cols rows w1))
                        else (None, resize connection cols rows w1)))
         else (None, w1))"

definition handleCloseShell :: "nat \<Rightarrow> string \<Rightarrow> message \<Rightarrow> world \<Rightarrow> js_error option \<times> world" where
  "handleCloseShell ws clientId message w =
     (let (connection, w1) = getConnection clientId w
      in case opt_field d_sessionId (msg_data message) of
           None \<Rightarrow> (None, w1)
         | Some sessionId \<Rightarrow>
             if sessionId \<noteq> [] \<and> isConnected connection w1 then
               (let (closed, w2) = closeShell connection sessionId w1
                in (None, send ws (SshShellClosed sessionId (Some closed)) w2))
             else (None, w1))"

definition handleListShells :: "nat \<Rightarrow> string \<Rightarrow> world \<Rightarrow> js_error option \<times> world" where
  "handleListShells ws clientId w =
     (let (connection, w1) = getConnection clientId w;
          active = (if isConnected connection w1 then getActiveShells connection w1 else [])
      in (None, send ws (SshListShellsResponse active) w1))"

definition handleDisconnect :: "nat \<Rightarrow> string \<Rightarrow> world \<Rightarrow> js_error option \<times> world" where
  "handleDisconnect ws clientId w =
     (None, send ws (SshStatus ''disconnected'' ''Disconnected'') (removeConnection clientId w))"

text \<open>
  With no \<^verbatim>\<open>message.data\<close> the destructuring throws inside \<^verbatim>\<open>try\<close>, and the \<^verbatim>\<open>catch\<close> block
  throws again on \<^verbatim>\<open>message.data.localPort\<close> before it sends anything.
\<close>

definition handlePortForward :: "nat \<Rightarrow> string \<Rightarrow> message \<Rightarrow> world \<Rightarrow> js_error option \<times> world" where
  "handlePortForward ws clientId message w =
     (let d = msg_data message
      in case destructure ''localPort'' d_localPort d of
           Inl error \<Rightarrow>
             (case req_field ''localPort'' d_localPort d of
                Inl e \<Rightarrow> (Some e, w)
              | Inr lp \<Rightarrow>
                  (None, send ws (SshPortForwardResponse False lp (Some (err_message error))) w))
         | Inr lp \<Rightarrow>
             (let config = \<lparr>localPort = lp, remoteHost = opt_field d_remoteHost d,
                            remotePort = opt_field d_remotePort d\<rparr>;
                  (connection, w1) = getConnection clientId w
              in if \<not> isConnected connection w1 then
                   (None, send ws (SshPortForwardResponse False lp (Some ''SSH not connected'')) w1)
                 else
                   (let (p, w2) = setupPortForward connection config w1
                    in (None, await p (AfterPortForward ws lp) w2))))"

definition handleStopPortForward ::
  "nat \<Rightarrow> string \<Rightarrow> message \<Rightarrow> world \<Rightarrow> js_error option \<times> world" where
  "handleStopPortForward ws clientId message w =
     (let (connection, w1) = getConnection clientId w
      in case req_field ''localPort'' d_localPort (msg_data message) of
           Inl e \<Rightarrow> (Some e, w1)
         | Inr lp \<Rightarrow>
             (let w2 = (if isConnected connection w1 then stopPortForward connection lp w1 else w1)
              in (None, send ws (SshPortForwardResponse True lp (Some ''Port forward stopped'')) w2)))"

definition handle :: "nat \<Rightarrow> string \<Rightarrow> message \<Rightarrow> world \<Rightarrow> js_error option \<times> world" where
  "handle ws clientId message w =
     (let t = msg_type message
      in if t = ''ssh_connect'' then handleConnect ws clientId message w
         else if t = ''ssh_start_shell'' then handleStartShell ws clientId message w
         else if t = ''ssh_input'' then handleInput clientId message w
         else if t = ''ssh_resize'' then handleResize clientId message w
         else if t = ''ssh_disconnect'' then handleDisconnect ws clientId w
         else if t = ''ssh_close_shell'' then handleCloseShell ws clientId message w
         else if t = ''ssh_list_shells'' then handleListShells ws clientId w
         else if t = ''ssh_port_forward'' then handlePortForward ws clientId message w
         else if t = ''ssh_stop_port_forward'' then handleStopPortForward ws clientId message w
         else (None, w))"

text \<open>\<^verbatim>\<open>SSHHandler.cleanup\<close>, called when a client's transport closes.\<close>

definition handler_cleanup :: "string \<Rightarrow> world \<Rightarrow> world" where
  "handler_cleanup clientId w = removeConnection clientId w"

section \<open>AuthManager\<close>

text \<open>
  \<^verbatim>\<open>CONFIG.authToken\<close> is a parameter. \<^verbatim>\<open>!CONFIG.authToken\<close> holds for \<^verbatim>\<open>undefined\<close> and for the
  empty string; \<^verbatim>\<open>===\<close> on two values that are strings or \<^verbatim>\<open>undefined\<close> is equality.
\<close>

definition validateToken :: "string option \<Rightarrow> string option \<Rightarrow> bool" where
  "validateToken authToken token =
     (if \<not> truthy_str authToken then True else token = authToken)"

section \<open>Runs\<close>

text \<open>
  What the process reacts to: a message given to \<^verbatim>\<open>SSHHandler.handle\<close>, and the events of
  the ssh2 client, of a pending shell request, of a stream and of a listener. An error
  thrown by a handler rejects the promise of \<^verbatim>\<open>handle\<close> and is dropped here.
\<close>

datatype event =
    Msg nat string message
  | ClientReady nat
  | ClientError nat js_error
  | ClientClose nat
  | ShellOpened nat
  | ShellFailed nat js_error
  | StreamData nat string
  | StreamClose nat
  | Listening nat
  | ServerError nat js_error

fun step :: "world \<Rightarrow> event \<Rightarrow> world" where
  "step w (Msg ws clientId message) = snd (handle ws clientId message w)"
| "step w (ClientReady c) = on_client_ready c w"
| "step w (ClientError c e) = on_client_error c e w"
| "step w (ClientClose c) = on_client_close c w"
| "step w (ShellOpened r) = on_shell_opened r w"
| "step w (ShellFailed r e) = on_shell_failed r e w"
| "step w (StreamData h d) = on_stream_data h d w"
| "step w (StreamClose h) = on_stream_close h w"
| "step w (Listening s) = on_server_listening s w"
| "step w (ServerError s e) = on_server_error s e w"

definition run :: "world \<Rightarrow> event list \<Rightarrow> world" where
  "run w es = foldl step w es"

text \<open>The \<^verbatim>\<open>ssh_shell_closed\<close> messages for one session id among the messages sent.\<close>

fun is_shell_closed :: "string \<Rightarrow> nat \<times> out_msg \<Rightarrow> bool" where
  "is_shell_closed sid (ws, SshShellClosed sid' ok) = (sid' = sid)"
| "is_shell_closed sid (ws, m) = False"

definition shell_closed_count :: "string \<Rightarrow> world \<Rightarrow> nat" where
  "shell_closed_count sid w = length (filter (is_shell_closed sid) (outbox w))"

text \<open>
  The world right after \<^verbatim>\<open>new Promise\<close> whose executor called \<^verbatim>\<open>reject(e)\<close> and returned:
  one more promise, already rejected, and nothing else touched.
\<close>

definition rejected_at :: "js_error \<Rightarrow> world \<Rightarrow> world" where
  "rejected_at e w =
     w\<lparr>promise_heap := (promise_heap w)(next_promise w := \<lparr>p_state = Rejected e, p_waiter = None\<rparr>),
       next_promise := Suc (next_promise w)\<rparr>"

subsection \<open>Sample messages and a sample session\<close>

definition connect_msg :: message where
  "connect_msg = \<lparr>msg_type = ''ssh_connect'',
     msg_data = ObjData (no_fields\<lparr>d_host := Some ''example.org'', d_port := Some 22,
                  d_username := Some ''dev'', d_password := Some ''pw''\<rparr>)\<rparr>"

definition start_shell_msg :: "string \<Rightarrow> message" where
  "start_shell_msg sid = \<lparr>msg_type = ''ssh_start_shell'',
     msg_data = ObjData (no_fields\<lparr>d_sessionId := Some sid\<rparr>)\<rparr>"

definition close_shell_msg :: "string \<Rightarrow> message" where
  "close_shell_msg sid = \<lparr>msg_type = ''ssh_close_shell'',
     msg_data = ObjData (no_fields\<lparr>d_sessionId := Some sid\<rparr>)\<rparr>"

definition input_msg :: "string \<Rightarrow> string \<Rightarrow> message" where
  "input_msg sid i = \<lparr>msg_type = ''ssh_input'',
     msg_data = ObjData (no_fields\<lparr>d_sessionId := Some sid, d_input := Some i\<rparr>)\<rparr>"

definition port_forward_msg :: "nat \<Rightarrow> message" where
  "port_forward_msg lp = \<lparr>msg_type = ''ssh_port_forward'',
     msg_data = ObjData (no_fields\<lparr>d_localPort := Some lp, d_remoteHost := Some ''127.0.0.1'',
                  d_remotePort := Some 80\<rparr>)\<rparr>"

text \<open>
  Client \<^verbatim>\<open>c1\<close> on websocket 7 connects, opens the shells \<^verbatim>\<open>a\<close> and \<^verbatim>\<open>b\<close> (streams 0 and 1)
  and forwards local port 9000 (listener 0).
\<close>

definition two_shells :: world where
  "two_shells = run init_world
     [Msg 7 ''c1'' connect_msg, ClientReady 0,
      Msg 7 ''c1'' (start_shell_msg ''a''), ShellOpened 0,
      Msg 7 ''c1'' (start_shell_msg ''b''), ShellOpened 1,
      Msg 7 ''c1'' (port_forward_msg 9000), Listening 0]"

text \<open>
  Client \<^verbatim>\<open>c1\<close> connects, opens the shell \<^verbatim>\<open>s1\<close>, asks to close it, and the stream then
  emits its \<^verbatim>\<open>'close'\<close> event.
\<close>

definition explicit_close_trace :: "event list" where
  "explicit_close_trace =
     [Msg 7 ''c1'' connect_msg, ClientReady 0,
      Msg 7 ''c1'' (start_shell_msg ''s1''), ShellOpened 0,
      Msg 7 ''c1'' (close_shell_msg ''s1''), StreamClose 0]"

section \<open>Frame lemmas\<close>

lemma upd_conn_same: "f (conn_heap w c) = conn_heap w c \<Longrightarrow> upd_conn c f w = w"
  by (simp add: upd_conn_def)

lemma conn_heap_upd_conn [simp]:
  "conn_heap (upd_conn c f w) = (conn_heap w)(c := f (conn_heap w c))"
  by (simp add: upd_conn_def)

lemma conn_heap_closes [simp]:
  "conn_heap (foldl (\<lambda>v h. stream_close h v) w hs) = conn_heap w"
  "conn_heap (foldl (\<lambda>v s. server_close s v) w ss) = conn_heap w"
  by (induction hs arbitrary: w, simp_all add: stream_close_def upd_stream_def)
     (induction ss arbitrary: w, simp_all add: server_close_def upd_server_def)

lemma conn_heap_library_calls [simp]:
  "conn_heap (stream_close h w) = conn_heap w"
  "conn_heap (stream_write h d w) = conn_heap w"
  "conn_heap (stream_setWindow h r k w) = conn_heap w"
  "conn_heap (server_close s w) = conn_heap w"
  by (simp_all add: stream_close_def stream_write_def stream_setWindow_def server_close_def
        upd_stream_def upd_server_def)

lemma conn_heap_run_cont [simp]: "conn_heap (run_cont k r w) = conn_heap w"
  by (cases k; cases r) (simp_all add: send_def)

lemma promise_heap_run_cont [simp]: "promise_heap (run_cont k r w) = promise_heap w"
  by (cases k; cases r) (simp_all add: send_def)

lemma conn_heap_settle [simp]:
  "conn_heap (reject p e w) = conn_heap w"
  "conn_heap (resolve p w) = conn_heap w"
  by (simp_all add: reject_def resolve_def upd_promise_def Let_def
        split: pstate.splits option.splits)

lemma reject_pending:
  "p_state (promise_heap w p) = Pending \<Longrightarrow>
   p_state (promise_heap (reject p e w) p) = Rejected e"
  by (simp add: reject_def upd_promise_def Let_def split: option.splits)

lemma keys_delete: "map fst (AList.delete k al) = removeAll k (map fst al)"
  by (induction al) auto

lemma has_iff_key: "map_has m k \<longleftrightarrow> k \<in> set (map_keys m)"
  by (simp add: map_has_def map_keys_def dom_map_of_conv_image_fst [symmetric] domIff
           split: option.splits)

lemma values_update_subset:
  "set (map snd (AList.update k v al)) \<subseteq> insert v (set (map snd al))"
  by (induction al) auto

subsection \<open>Evaluating the sample session\<close>

lemmas model_defs =
  run_def init_world_def handle_def handleConnect_def handleStartShell_def
  handleCloseShell_def handleInput_def handlePortForward_def
  getConnection_def connect_def new_promise_def await_def
  upd_conn_def upd_promise_def upd_stream_def upd_server_def send_def
  on_client_ready_def resolve_def reject_def startShell_def setupPortForward_def
  on_shell_opened_def on_server_listening_def closeShell_def on_stream_close_def
  stream_close_def stream_write_def writeToShell_def write_legacy_def
  map_get_def map_has_def map_set_def map_delete_def map_keys_def map_values_def
  req_field_def destructure_def opt_field_def no_fields_def isConnected_def or_str_def
  or_num_def listen_throws_def
  new_SSHConnection_def new_Client_def connectionConfig_def truthy_str_def
  input_of_def input_arg_def Let_def

lemmas msg_defs =
  connect_msg_def start_shell_msg_def close_shell_msg_def input_msg_def port_forward_msg_def

lemma two_shells_registry: "connections two_shells = [(''c1'', 0)]"
  by (simp add: two_shells_def model_defs msg_defs)

lemma two_shells_conn:
  "shells (conn_heap two_shells 0) = [(''a'', 0), (''b'', 1)]"
  "portForwards (conn_heap two_shells 0) = [(Some 9000, 0)]"
  "connected (conn_heap two_shells 0)"
  by (simp_all add: two_shells_def model_defs msg_defs)

lemma two_shells_streams:
  "st_written (stream_heap two_shells 0) = []"
  "st_onClose (stream_heap two_shells 0) = SendShellClosed 7 ''a''"
  "st_written (stream_heap two_shells 1) = []"
  "st_close_calls (stream_heap two_shells 1) = 0"
  by (simp_all add: two_shells_def model_defs msg_defs)

lemma two_shells_outbox:
  "outbox two_shells = [(7, SshConnectResponse True None), (7, SshShellStarted ''a''),
     (7, SshShellStarted ''b''), (7, SshPortForwardResponse True (Some 9000) None)]"
  by (simp add: two_shells_def model_defs msg_defs)

lemma two_shells_next: "next_server two_shells = 1" "next_promise two_shells = 4"
  by (simp_all add: two_shells_def model_defs msg_defs)

section \<open>Teardown of a connection\<close>

lemma disconnect_conn:
  "conn_heap (disconnect c w) c =
     (conn_heap w c)\<lparr>shells := [], portForwards := [], connected := False,
        client := (if connected (conn_heap w c)
                   then (client (conn_heap w c))\<lparr>cl_end_calls := Suc (cl_end_calls (client (conn_heap w c)))\<rparr>
                   else client (conn_heap w c))\<rparr>"
  by (simp add: disconnect_def Let_def)

lemma disconnect_noop:
  assumes "shells (conn_heap w c) = []" "portForwards (conn_heap w c) = []"
    and "\<not> connected (conn_heap w c)"
  shows "disconnect c w = w"
proof -
  have e1: "upd_conn c (\<lambda>k. k\<lparr>shells := []\<rparr>) w = w"
    using assms(1) by (intro upd_conn_same) (cases "conn_heap w c", simp)
  have e2: "upd_conn c (\<lambda>k. k\<lparr>portForwards := []\<rparr>) w = w"
    using assms(2) by (intro upd_conn_same) (cases "conn_heap w c", simp)
  from assms show ?thesis
    by (simp add: disconnect_def Let_def map_values_def e1 e2)
qed

lemma disconnect_never_connected:
  "conn_heap w c = new_SSHConnection \<Longrightarrow> disconnect c w = w"
  by (rule disconnect_noop) (simp_all add: new_SSHConnection_def)

text \<open>
  Claim C2. For every connection \<open>c\<close> in every state \<open>w\<close> (connected or not, and also one
  that was never connected or was disconnected before), after \<^verbatim>\<open>disconnect()\<close> the
  connection is not connected, \<^verbatim>\<open>getActiveShells()\<close> is the empty list and the
  port-forward map is empty; a second \<^verbatim>\<open>disconnect()\<close> changes nothing at all. The model
  of \<^verbatim>\<open>disconnect\<close> has no failing branch, as the source has no \<^verbatim>\<open>throw\<close>.
\<close>

theorem disconnect_teardown:
  "\<not> isConnected c (disconnect c w) \<and>
   getActiveShells c (disconnect c w) = [] \<and>
   portForwards (conn_heap (disconnect c w) c) = [] \<and>
   disconnect c (disconnect c w) = disconnect c w"
proof -
  let ?k = "conn_heap (disconnect c w) c"
  have s: "shells ?k = []" and p: "portForwards ?k = []" and n: "\<not> connected ?k"
    by (simp_all add: disconnect_conn)
  from s p n have "disconnect c (disconnect c w) = disconnect c w"
    by (rule disconnect_noop)
  with s p n show ?thesis
    by (simp add: isConnected_def getActiveShells_def map_keys_def)
qed

section \<open>The registry\<close>

lemma disconnect_registry [simp]:
  "connections (disconnect c w) = connections w"
  "next_conn (disconnect c w) = next_conn w"
proof -
  have a: "\<And>v hs. connections (foldl (\<lambda>v h. stream_close h v) v hs) = connections v
                  \<and> next_conn (foldl (\<lambda>v h. stream_close h v) v hs) = next_conn v"
    subgoal for v hs
      by (induction hs arbitrary: v) (simp_all add: stream_close_def upd_stream_def)
    done
  have b: "\<And>v ss. connections (foldl (\<lambda>v s. server_close s v) v ss) = connections v
                  \<and> next_conn (foldl (\<lambda>v s. server_close s v) v ss) = next_conn v"
    subgoal for v ss
      by (induction ss arbitrary: v) (simp_all add: server_close_def upd_server_def)
    done
  show "connections (disconnect c w) = connections w"
    by (simp add: disconnect_def Let_def upd_conn_def a b)
  show "next_conn (disconnect c w) = next_conn w"
    by (simp add: disconnect_def Let_def upd_conn_def a b)
qed

lemma getConnection_registered:
  "getConnection clientId w = (r, w') \<Longrightarrow> map_get (connections w') clientId = Some r"
  by (auto simp: getConnection_def map_get_def map_set_def Let_def update_conv'
           split: option.splits)

lemma getConnection_registry_ok:
  assumes "registry_ok w" and "getConnection clientId w = (r, w')"
  shows "registry_ok w' \<and> r < next_conn w'"
proof (cases "map_get (connections w) clientId")
  case None
  with assms(2) have w': "w' = w\<lparr>conn_heap := (conn_heap w)(next_conn w := new_SSHConnection),
       next_conn := Suc (next_conn w),
       connections := map_set (connections w) clientId (next_conn w)\<rparr>" and r: "r = next_conn w"
    by (auto simp: getConnection_def Let_def)
  have "\<forall>x \<in> set (map snd (AList.update clientId (next_conn w) (connections w))). x < Suc (next_conn w)"
    using values_update_subset [of clientId "next_conn w" "connections w"] assms(1)
    by (fastforce simp: registry_ok_def map_values_def list_all_iff)
  then show ?thesis
    by (simp add: w' r registry_ok_def map_values_def map_set_def list_all_iff)
next
  case (Some a)
  with assms(2) have "w' = w" "r = a" by (simp_all add: getConnection_def)
  moreover from Some have "(clientId, a) \<in> set (connections w)"
    by (simp add: map_get_def map_of_SomeD)
  ultimately show ?thesis using assms(1)
    by (force simp: registry_ok_def map_values_def list_all_iff)
qed

text \<open>
  Claim C1. In a state whose registry only holds allocated references (every state the
  process can reach, see \<open>registry_ok_reachable\<close> below), two successive
  calls of \<^verbatim>\<open>getConnection(clientId)\<close> return the same instance (and the second call
  changes nothing); after \<^verbatim>\<open>removeConnection(clientId)\<close> the next
  \<^verbatim>\<open>getConnection(clientId)\<close> returns a new instance, different from the first and from
  every instance the registry held, which is not connected and has an empty shell map
  and an empty port-forward map.
\<close>

theorem getConnection_same_then_fresh:
  assumes "registry_ok w"
  shows "case getConnection clientId w of (r1, w1) \<Rightarrow>
           getConnection clientId w1 = (r1, w1) \<and>
           (case getConnection clientId (removeConnection clientId w1) of (r3, w3) \<Rightarrow>
              r3 \<noteq> r1 \<and> r3 \<notin> set (map_values (connections w1)) \<and>
              conn_heap w3 r3 = new_SSHConnection \<and>
              \<not> isConnected r3 w3 \<and>
              shells (conn_heap w3 r3) = [] \<and>
              portForwards (conn_heap w3 r3) = [] \<and>
              map_get (connections w3) clientId = Some r3)"
proof -
  obtain r1 w1 where g: "getConnection clientId w = (r1, w1)"
    by (cases "getConnection clientId w")
  have reg: "map_get (connections w1) clientId = Some r1"
    using g by (rule getConnection_registered)
  have ok: "registry_ok w1" and lt: "r1 < next_conn w1"
    using getConnection_registry_ok [OF assms g] by simp_all
  have same: "getConnection clientId w1 = (r1, w1)"
    using reg by (simp add: getConnection_def)
  let ?w2 = "removeConnection clientId w1"
  have w2: "?w2 = (disconnect r1 w1)\<lparr>connections := map_delete (connections w1) clientId\<rparr>"
    using reg by (simp add: removeConnection_def Let_def)
  have gone: "map_get (connections ?w2) clientId = None"
    by (simp add: w2 map_get_def map_delete_def delete_conv')
  have nxt: "next_conn ?w2 = next_conn w1"
    by (simp add: w2)
  obtain r3 w3 where g3: "getConnection clientId ?w2 = (r3, w3)"
    by (cases "getConnection clientId ?w2")
  from g3 gone nxt have r3: "r3 = next_conn w1"
    and h3: "conn_heap w3 r3 = new_SSHConnection"
    by (auto simp: getConnection_def Let_def)
  have reg3: "map_get (connections w3) clientId = Some r3"
    using g3 by (rule getConnection_registered)
  have fresh: "r3 \<notin> set (map_values (connections w1))"
    using ok by (auto simp: r3 registry_ok_def list_all_iff)
  from lt r3 have "r3 \<noteq> r1" by simp
  with fresh h3 reg3 same show ?thesis
    by (simp add: g g3 isConnected_def new_SSHConnection_def)
qed


theorem getConnection_same_then_fresh_witness:
  "registry_ok init_world \<and>
   fst (getConnection ''c1'' init_world) = 0 \<and>
   getConnection ''c1'' (snd (getConnection ''c1'' init_world)) =
     (0, snd (getConnection ''c1'' init_world)) \<and>
   fst (getConnection ''c1''
          (removeConnection ''c1'' (snd (getConnection ''c1'' init_world)))) \<noteq> 0"
proof -
  have ok: "registry_ok init_world"
    by (simp add: registry_ok_def init_world_def map_values_def)
  obtain r1 w1 where g: "getConnection ''c1'' init_world = (r1, w1)"
    by (cases "getConnection ''c1'' init_world")
  then have r1: "r1 = 0"
    by (auto simp: getConnection_def init_world_def map_get_def Let_def)
  obtain r3 w3 where g3: "getConnection ''c1'' (removeConnection ''c1'' w1) = (r3, w3)"
    by (cases "getConnection ''c1'' (removeConnection ''c1'' w1)")
  from getConnection_same_then_fresh [OF ok, of "''c1''"] g g3
  have "getConnection ''c1'' w1 = (r1, w1) \<and> r3 \<noteq> r1"
    by simp
  with ok g g3 r1 show ?thesis by simp
qed

section \<open>The registry invariant\<close>

lemma registry_ok_eq:
  "connections w' = connections w \<Longrightarrow> next_conn w' = next_conn w \<Longrightarrow>
   registry_ok w' = registry_ok w"
  by (simp add: registry_ok_def)

lemma registry_ok_updates [simp]:
  "registry_ok (send ws m w) = registry_ok w"
  "registry_ok (upd_conn c f w) = registry_ok w"
  "registry_ok (upd_stream h fs w) = registry_ok w"
  "registry_ok (upd_server s fv w) = registry_ok w"
  "registry_ok (upd_promise p fp w) = registry_ok w"
  by (simp_all add: registry_ok_def send_def upd_conn_def upd_stream_def upd_server_def
        upd_promise_def)

lemma registry_ok_library_calls [simp]:
  "registry_ok (stream_close h w) = registry_ok w"
  "registry_ok (stream_write h d w) = registry_ok w"
  "registry_ok (stream_setWindow h r k w) = registry_ok w"
  "registry_ok (server_close s w) = registry_ok w"
  by (simp_all add: stream_close_def stream_write_def stream_setWindow_def server_close_def)

lemma registry_ok_run_cont [simp]: "registry_ok (run_cont k r w) = registry_ok w"
  by (cases k; cases r) simp_all

lemma registry_ok_promises [simp]:
  "registry_ok (resolve p w) = registry_ok w"
  "registry_ok (reject p e w) = registry_ok w"
  "registry_ok (await p k w) = registry_ok w"
  "registry_ok (snd (new_promise w)) = registry_ok w"
proof -
  show "registry_ok (resolve p w) = registry_ok w"
    by (simp add: resolve_def Let_def split: pstate.splits option.splits)
  show "registry_ok (reject p e w) = registry_ok w"
    by (simp add: reject_def Let_def split: pstate.splits option.splits)
  show "registry_ok (await p k w) = registry_ok w"
    by (simp add: await_def split: pstate.splits)
  show "registry_ok (snd (new_promise w)) = registry_ok w"
    by (simp add: new_promise_def registry_ok_def)
qed

lemma registry_ok_foldl:
  assumes "\<And>v x. registry_ok (f v x) = registry_ok v"
  shows "registry_ok (foldl f w xs) = registry_ok w"
  using assms by (induction xs arbitrary: w) simp_all

lemma registry_ok_disconnect [simp]: "registry_ok (disconnect c w) = registry_ok w"
  by (rule registry_ok_eq) simp_all

lemma registry_ok_connection_methods [simp]:
  "registry_ok (snd (connect c config w)) = registry_ok w"
  "registry_ok (snd (startShell c sid od oc cols rows w)) = registry_ok w"
  "registry_ok (snd (setupPortForward c fc w)) = registry_ok w"
  "registry_ok (snd (writeToShell c sid d w)) = registry_ok w"
  "registry_ok (snd (resizeShell c sid co ro w)) = registry_ok w"
  "registry_ok (snd (closeShell c sid w)) = registry_ok w"
  "registry_ok (write_legacy c d w) = registry_ok w"
  "registry_ok (resize c co ro w) = registry_ok w"
  "registry_ok (stopPortForward c lp w) = registry_ok w"
proof -
  have p: "registry_ok (v\<lparr>shell_reqs := q, next_req := n\<rparr>) = registry_ok v"
    "registry_ok (v\<lparr>server_heap := sv, next_server := n\<rparr>) = registry_ok v" for v q sv n
    by (simp_all add: registry_ok_def)
  show "registry_ok (snd (connect c config w)) = registry_ok w"
    by (simp add: connect_def case_prod_beta)
  show "registry_ok (snd (startShell c sid od oc cols rows w)) = registry_ok w"
    by (simp add: startShell_def case_prod_beta p)
  show "registry_ok (snd (setupPortForward c fc w)) = registry_ok w"
    by (simp add: setupPortForward_def case_prod_beta Let_def p split: option.splits)
  show "registry_ok (snd (writeToShell c sid d w)) = registry_ok w"
    by (simp add: writeToShell_def split: option.splits)
  show "registry_ok (snd (resizeShell c sid co ro w)) = registry_ok w"
    by (simp add: resizeShell_def split: option.splits)
  show "registry_ok (snd (closeShell c sid w)) = registry_ok w"
    by (simp add: closeShell_def split: option.splits)
  show "registry_ok (write_legacy c d w) = registry_ok w"
    by (simp add: write_legacy_def split: list.splits)
  show "registry_ok (resize c co ro w) = registry_ok w"
    by (simp add: resize_def split: list.splits)
  show "registry_ok (stopPortForward c lp w) = registry_ok w"
    by (simp add: stopPortForward_def split: option.splits)
qed

lemma registry_ok_events [simp]:
  "registry_ok (on_client_ready c w) = registry_ok w"
  "registry_ok (on_client_error c e w) = registry_ok w"
  "registry_ok (on_client_close c w) = registry_ok w"
  "registry_ok (on_shell_opened r w) = registry_ok w"
  "registry_ok (on_shell_failed r e w) = registry_ok w"
  "registry_ok (on_stream_data h d w) = registry_ok w"
  "registry_ok (on_stream_close h w) = registry_ok w"
  "registry_ok (on_server_listening s w) = registry_ok w"
  "registry_ok (on_server_error s e w) = registry_ok w"
proof -
  show "registry_ok (on_client_ready c w) = registry_ok w"
    unfolding on_client_ready_def by (rule registry_ok_foldl) simp
  show "registry_ok (on_client_error c e w) = registry_ok w"
    unfolding on_client_error_def by (rule registry_ok_foldl) simp
  show "registry_ok (on_client_close c w) = registry_ok w"
    unfolding on_client_close_def by (rule registry_ok_foldl) simp
  have "registry_ok (w\<lparr>stream_heap := sh, next_stream := n\<rparr>) = registry_ok w" for sh n
    by (simp add: registry_ok_def)
  then show "registry_ok (on_shell_opened r w) = registry_ok w"
    by (simp add: on_shell_opened_def Let_def)
  show "registry_ok (on_shell_failed r e w) = registry_ok w"
    by (simp add: on_shell_failed_def)
  show "registry_ok (on_stream_data h d w) = registry_ok w"
    by (cases "st_onData (stream_heap w h)") (simp add: on_stream_data_def)
  show "registry_ok (on_stream_close h w) = registry_ok w"
    by (cases "st_onClose (stream_heap w h)") (simp add: on_stream_close_def Let_def)
  show "registry_ok (on_server_listening s w) = registry_ok w"
    by (simp add: on_server_listening_def Let_def)
  show "registry_ok (on_server_error s e w) = registry_ok w"
    by (simp add: on_server_error_def)
qed

lemma registry_ok_getConnection:
  "registry_ok w \<Longrightarrow> registry_ok (snd (getConnection clientId w))"
  using getConnection_registry_ok [of w clientId "fst (getConnection clientId w)"
          "snd (getConnection clientId w)"]
  by simp

lemma values_delete_subset: "set (map snd (AList.delete k al)) \<subseteq> set (map snd al)"
  by (induction al) auto

lemma registry_ok_removeConnection:
  assumes "registry_ok w"
  shows "registry_ok (removeConnection clientId w)"
proof (cases "map_get (connections w) clientId")
  case None
  with assms show ?thesis by (simp add: removeConnection_def)
next
  case (Some c)
  have "registry_ok (disconnect c w)" using assms by simp
  then have "list_all (\<lambda>r. r < next_conn w) (map snd (AList.delete clientId (connections w)))"
    using values_delete_subset [of clientId "connections w"]
    by (fastforce simp: registry_ok_def map_values_def list_all_iff)
  with Some show ?thesis
    by (simp add: removeConnection_def Let_def registry_ok_def map_values_def map_delete_def)
qed

lemma registry_ok_handle:
  assumes "registry_ok w"
  shows "registry_ok (snd (handle ws clientId message w))"
proof -
  have g: "registry_ok (snd (getConnection clientId w))"
    using assms by (rule registry_ok_getConnection)
  have 1: "registry_ok (snd (handleConnect ws clientId message w))"
    using assms g by (simp add: handleConnect_def case_prod_beta Let_def split: sum.splits)
  have 2: "registry_ok (snd (handleStartShell ws clientId message w))"
    using g by (simp add: handleStartShell_def case_prod_beta Let_def)
  have 3: "registry_ok (snd (handleInput clientId message w))"
    using g by (simp add: handleInput_def case_prod_beta Let_def split: sum.splits)
  have 4: "registry_ok (snd (handleResize clientId message w))"
    using g by (simp add: handleResize_def case_prod_beta Let_def split: sum.splits option.splits)
  have 5: "registry_ok (snd (handleDisconnect ws clientId w))"
    using assms by (simp add: handleDisconnect_def registry_ok_removeConnection)
  have 6: "registry_ok (snd (handleCloseShell ws clientId message w))"
    using g by (simp add: handleCloseShell_def case_prod_beta Let_def split: option.splits)
  have 7: "registry_ok (snd (handleListShells ws clientId w))"
    using g by (simp add: handleListShells_def case_prod_beta Let_def)
  have 8: "registry_ok (snd (handlePortForward ws clientId message w))"
    using assms g by (simp add: handlePortForward_def case_prod_beta Let_def split: sum.splits)
  have 9: "registry_ok (snd (handleStopPortForward ws clientId message w))"
    using g by (simp add: handleStopPortForward_def case_prod_beta Let_def split: sum.splits)
  from assms 1 2 3 4 5 6 7 8 9 show ?thesis
    by (simp add: handle_def Let_def)
qed

lemma registry_ok_step: "registry_ok w \<Longrightarrow> registry_ok (step w e)"
  by (cases e) (simp_all add: registry_ok_handle)

lemma registry_ok_run: "registry_ok w \<Longrightarrow> registry_ok (run w es)"
  unfolding run_def by (induction es arbitrary: w) (simp_all add: registry_ok_step)

lemma registry_ok_init: "registry_ok init_world"
  by (simp add: registry_ok_def init_world_def map_values_def)

lemma registry_ok_reachable: "registry_ok (run init_world es)"
  using registry_ok_init by (rule registry_ok_run)

section \<open>Immediate failures\<close>

lemma startShell_rejects:
  "\<not> connected (conn_heap w c) \<Longrightarrow>
     startShell c sessionId onData onClose cols rows w =
       (next_promise w, rejected_at (Error ''SSH not connected'') w)"
  "connected (conn_heap w c) \<Longrightarrow> map_has (shells (conn_heap w c)) sessionId \<Longrightarrow>
     startShell c sessionId onData onClose cols rows w =
       (next_promise w,
        rejected_at (Error (''Shell session '' @ sessionId @ '' already exists'')) w)"
  by (simp_all add: startShell_def new_promise_def reject_def upd_promise_def rejected_at_def)

text \<open>
  Claim C3. When the connection is not connected, or \<^verbatim>\<open>sessionId\<close> is already a key of the
  shell map, the promise returned by \<^verbatim>\<open>startShell\<close> is already rejected on return (with
  \<^verbatim>\<open>SSH not connected\<close>, respectively \<^verbatim>\<open>Shell session ... already exists\<close>), and no
  connection, no shell map, no stream and no pending shell request has changed, and
  nothing was sent.
\<close>

theorem startShell_fails_immediately:
  assumes "\<not> isConnected c w \<or> hasShell c sessionId w"
  shows "case startShell c sessionId onData onClose cols rows w of (p, w') \<Rightarrow>
           p_state (promise_heap w' p) =
             Rejected (if \<not> isConnected c w then Error ''SSH not connected''
                       else Error (''Shell session '' @ sessionId @ '' already exists'')) \<and>
           conn_heap w' = conn_heap w \<and> stream_heap w' = stream_heap w \<and>
           next_stream w' = next_stream w \<and> shell_reqs w' = shell_reqs w \<and>
           next_req w' = next_req w \<and> outbox w' = outbox w"
proof (cases "isConnected c w")
  case False
  then show ?thesis
    by (simp add: isConnected_def startShell_rejects(1) rejected_at_def)
next
  case True
  with assms have "hasShell c sessionId w" by simp
  with True show ?thesis
    by (simp add: isConnected_def hasShell_def startShell_rejects(2) rejected_at_def)
qed

theorem startShell_fails_immediately_witness:
  "\<not> isConnected 0 init_world \<and>
   p_state (promise_heap
       (snd (startShell 0 ''a'' (SendOutput 7 ''a'') (SendShellClosed 7 ''a'') 80 24 init_world))
       (fst (startShell 0 ''a'' (SendOutput 7 ''a'') (SendShellClosed 7 ''a'') 80 24 init_world))) =
     Rejected (Error ''SSH not connected'') \<and>
   isConnected 0 two_shells \<and> hasShell 0 ''a'' two_shells \<and>
   p_state (promise_heap
       (snd (startShell 0 ''a'' (SendOutput 7 ''a'') (SendShellClosed 7 ''a'') 80 24 two_shells))
       (fst (startShell 0 ''a'' (SendOutput 7 ''a'') (SendShellClosed 7 ''a'') 80 24 two_shells))) =
     Rejected (Error ''Shell session a already exists'') \<and>
   conn_heap (snd (startShell 0 ''a'' (SendOutput 7 ''a'') (SendShellClosed 7 ''a'') 80 24 two_shells)) =
     conn_heap two_shells"
proof -
  have h1: "\<not> isConnected 0 init_world"
    by (simp add: isConnected_def init_world_def new_SSHConnection_def)
  have h2: "isConnected 0 two_shells" "hasShell 0 ''a'' two_shells"
    by (simp_all add: isConnected_def hasShell_def map_has_def two_shells_conn)
  from h1 have d1: "\<not> isConnected 0 init_world \<or> hasShell 0 ''a'' init_world" ..
  from h2 have d2: "\<not> isConnected 0 two_shells \<or> hasShell 0 ''a'' two_shells" by simp
  show ?thesis
    using startShell_fails_immediately [OF d1, of "SendOutput 7 ''a''" "SendShellClosed 7 ''a''" 80 24]
          startShell_fails_immediately [OF d2, of "SendOutput 7 ''a''" "SendShellClosed 7 ''a''" 80 24]
          h1 h2
    by (simp add: case_prod_beta)
qed

lemma setupPortForward_rejects:
  "\<not> connected (conn_heap w c) \<Longrightarrow>
     setupPortForward c config w = (next_promise w, rejected_at (Error ''SSH not connected'') w)"
  "connected (conn_heap w c) \<Longrightarrow> map_has (portForwards (conn_heap w c)) (localPort config) \<Longrightarrow>
     setupPortForward c config w =
       (next_promise w,
        rejected_at (Error (''Port '' @ template_num (localPort config)
                            @ '' is already forwarded'')) w)"
  by (simp_all add: setupPortForward_def new_promise_def reject_def upd_promise_def
        rejected_at_def)

lemma setupPortForward_listens:
  "connected (conn_heap w c) \<Longrightarrow> \<not> map_has (portForwards (conn_heap w c)) (localPort config) \<Longrightarrow>
   listen_throws (localPort config) = None \<Longrightarrow>
     setupPortForward c config w =
       (next_promise w,
        w\<lparr>promise_heap := (promise_heap w)(next_promise w := \<lparr>p_state = Pending, p_waiter = None\<rparr>),
          next_promise := Suc (next_promise w),
          server_heap := (server_heap w)(next_server w :=
             \<lparr>sv_conn = c, sv_config = config, sv_promise = next_promise w,
              sv_listen = localPort config, sv_close_calls = 0\<rparr>),
          next_server := Suc (next_server w)\<rparr>)"
  by (simp add: setupPortForward_def new_promise_def)

lemma setupPortForward_listen_throws:
  "connected (conn_heap w c) \<Longrightarrow> \<not> map_has (portForwards (conn_heap w c)) (localPort config) \<Longrightarrow>
   listen_throws (localPort config) = Some x \<Longrightarrow>
     setupPortForward c config w =
       (next_promise w,
        w\<lparr>promise_heap := (promise_heap w)(next_promise w := \<lparr>p_state = Rejected x, p_waiter = None\<rparr>),
          next_promise := Suc (next_promise w),
          server_heap := (server_heap w)(next_server w :=
             \<lparr>sv_conn = c, sv_config = config, sv_promise = next_promise w,
              sv_listen = localPort config, sv_close_calls = 0\<rparr>),
          next_server := Suc (next_server w)\<rparr>)"
  by (simp add: setupPortForward_def new_promise_def reject_def upd_promise_def)

lemma setupPortForward_conn_heap:
  "conn_heap (snd (setupPortForward c config w)) = conn_heap w"
proof (cases "connected (conn_heap w c)")
  case False
  then show ?thesis by (simp add: setupPortForward_rejects(1) rejected_at_def)
next
  case True
  show ?thesis
  proof (cases "map_has (portForwards (conn_heap w c)) (localPort config)")
    case True
    with \<open>connected (conn_heap w c)\<close> show ?thesis
      by (simp add: setupPortForward_rejects(2) rejected_at_def)
  next
    case False
    with \<open>connected (conn_heap w c)\<close> show ?thesis
      by (cases "listen_throws (localPort config)")
         (simp_all add: setupPortForward_listens setupPortForward_listen_throws)
  qed
qed

text \<open>
  Claim C4. \<^verbatim>\<open>setupPortForward\<close> never changes a connection, so whatever promise it
  returns the forward maps are what they were. It returns an already rejected promise
  when the connection is not connected or \<^verbatim>\<open>localPort\<close> is already a key of the forward
  map, and then no listener was created and nothing was sent. A bind failure takes one
  of two forms. When \<^verbatim>\<open>listen\<close> throws (a port above 65535) the returned promise is
  already rejected with the thrown error. Otherwise the promise is pending and nothing
  is registered yet; when the listener then reports an error the promise is rejected
  with that error and the forward maps are still what they were before the call. In
  any state an error of a listener leaves every forward map unchanged.
\<close>

theorem setupPortForward_failures:
  "(\<not> isConnected c w \<or> map_has (portForwards (conn_heap w c)) (localPort config) \<longrightarrow>
      (case setupPortForward c config w of (p, w') \<Rightarrow>
         p_state (promise_heap w' p) =
           Rejected (if \<not> isConnected c w then Error ''SSH not connected''
                     else Error (''Port '' @ template_num (localPort config)
                                 @ '' is already forwarded'')) \<and>
         conn_heap w' = conn_heap w \<and> server_heap w' = server_heap w \<and>
         next_server w' = next_server w \<and> outbox w' = outbox w)) \<and>
   (isConnected c w \<and> \<not> map_has (portForwards (conn_heap w c)) (localPort config) \<and>
    listen_throws (localPort config) = Some x \<longrightarrow>
      (case setupPortForward c config w of (p, w') \<Rightarrow>
         p_state (promise_heap w' p) = Rejected x \<and>
         conn_heap w' = conn_heap w \<and> outbox w' = outbox w)) \<and>
   (isConnected c w \<and> \<not> map_has (portForwards (conn_heap w c)) (localPort config) \<and>
    listen_throws (localPort config) = None \<longrightarrow>
      (case setupPortForward c config w of (p, w') \<Rightarrow>
         p_state (promise_heap w' p) = Pending \<and>
         sv_promise (server_heap w' (next_server w)) = p \<and>
         conn_heap w' = conn_heap w \<and>
         p_state (promise_heap (on_server_error (next_server w) e w') p) = Rejected e \<and>
         conn_heap (on_server_error (next_server w) e w') = conn_heap w)) \<and>
   conn_heap (snd (setupPortForward c config w)) = conn_heap w \<and>
   conn_heap (on_server_error s e v) = conn_heap v"
proof -
  have 1: "\<not> isConnected c w \<or> map_has (portForwards (conn_heap w c)) (localPort config) \<longrightarrow>
      (case setupPortForward c config w of (p, w') \<Rightarrow>
         p_state (promise_heap w' p) =
           Rejected (if \<not> isConnected c w then Error ''SSH not connected''
                     else Error (''Port '' @ template_num (localPort config)
                                 @ '' is already forwarded'')) \<and>
         conn_heap w' = conn_heap w \<and> server_heap w' = server_heap w \<and>
         next_server w' = next_server w \<and> outbox w' = outbox w)"
    by (cases "isConnected c w")
       (simp_all add: isConnected_def setupPortForward_rejects rejected_at_def)
  have 2: "isConnected c w \<and> \<not> map_has (portForwards (conn_heap w c)) (localPort config) \<and>
    listen_throws (localPort config) = Some x \<longrightarrow>
      (case setupPortForward c config w of (p, w') \<Rightarrow>
         p_state (promise_heap w' p) = Rejected x \<and>
         conn_heap w' = conn_heap w \<and> outbox w' = outbox w)"
    by (simp add: isConnected_def setupPortForward_listen_throws)
  have 3: "isConnected c w \<and> \<not> map_has (portForwards (conn_heap w c)) (localPort config) \<and>
    listen_throws (localPort config) = None \<longrightarrow>
      (case setupPortForward c config w of (p, w') \<Rightarrow>
         p_state (promise_heap w' p) = Pending \<and>
         sv_promise (server_heap w' (next_server w)) = p \<and>
         conn_heap w' = conn_heap w \<and>
         p_state (promise_heap (on_server_error (next_server w) e w') p) = Rejected e \<and>
         conn_heap (on_server_error (next_server w) e w') = conn_heap w)"
    by (simp add: isConnected_def setupPortForward_listens on_server_error_def reject_pending)
  have 4: "conn_heap (snd (setupPortForward c config w)) = conn_heap w"
    by (rule setupPortForward_conn_heap)
  have 5: "conn_heap (on_server_error s e v) = conn_heap v"
    by (simp add: on_server_error_def)
  from 1 2 3 4 5 show ?thesis by blast
qed

lemma listen_throws_examples:
  "listen_throws None = None"
  "listen_throws (Some 0) = None"
  "listen_throws (Some 9000) = None"
  "listen_throws (Some 9001) = None"
  "listen_throws (Some 65535) = None"
  "listen_throws (Some 70000) =
     Some (RangeError ''options.port should be >= 0 and < 65536. Received type number (70000).'')"
  by (simp_all add: listen_throws_def digit_char_def)

theorem setupPortForward_failures_witness:
  "\<not> isConnected 0 init_world \<and>
   fst (setupPortForward 0 \<lparr>localPort = Some 9000, remoteHost = Some ''127.0.0.1'', remotePort = Some 80\<rparr>
          init_world) = 0 \<and>
   isConnected 0 two_shells \<and>
   map_has (portForwards (conn_heap two_shells 0)) (Some 9000) \<and>
   \<not> map_has (portForwards (conn_heap two_shells 0)) (Some 9001) \<and>
   \<not> map_has (portForwards (conn_heap two_shells 0)) (Some 70000) \<and>
   portForwards (conn_heap (snd (setupPortForward 0
       \<lparr>localPort = Some 9000, remoteHost = Some ''127.0.0.1'', remotePort = Some 80\<rparr> two_shells)) 0) =
     [(Some 9000, 0)] \<and>
   portForwards (conn_heap (on_server_error 1 (Error ''EADDRINUSE'') (snd (setupPortForward 0
       \<lparr>localPort = Some 9001, remoteHost = Some ''127.0.0.1'', remotePort = Some 80\<rparr> two_shells))) 0) =
     [(Some 9000, 0)] \<and>
   p_state (promise_heap (snd (setupPortForward 0
       \<lparr>localPort = Some 70000, remoteHost = Some ''127.0.0.1'', remotePort = Some 80\<rparr> two_shells)) 4) =
     Rejected (RangeError
       ''options.port should be >= 0 and < 65536. Received type number (70000).'') \<and>
   portForwards (conn_heap (snd (setupPortForward 0
       \<lparr>localPort = Some 70000, remoteHost = Some ''127.0.0.1'', remotePort = Some 80\<rparr> two_shells)) 0) =
     [(Some 9000, 0)]"
proof -
  have h1: "\<not> isConnected 0 init_world"
    by (simp add: isConnected_def init_world_def new_SSHConnection_def)
  have h2: "isConnected 0 two_shells"
    "map_has (portForwards (conn_heap two_shells 0)) (Some 9000)"
    "\<not> map_has (portForwards (conn_heap two_shells 0)) (Some 9001)"
    "\<not> map_has (portForwards (conn_heap two_shells 0)) (Some 70000)"
    by (simp_all add: isConnected_def map_has_def two_shells_conn)
  have p0: "fst (setupPortForward 0
      \<lparr>localPort = Some 9000, remoteHost = Some ''127.0.0.1'', remotePort = Some 80\<rparr> init_world) = 0"
    using h1 by (simp add: isConnected_def setupPortForward_rejects(1) init_world_def)
  have p4: "fst (setupPortForward 0
      \<lparr>localPort = Some 70000, remoteHost = Some ''127.0.0.1'', remotePort = Some 80\<rparr> two_shells) = 4"
    using h2 by (simp add: isConnected_def setupPortForward_listen_throws listen_throws_examples
                   two_shells_next)
  show ?thesis
    using setupPortForward_failures [of 0 init_world
            "\<lparr>localPort = Some 9000, remoteHost = Some ''127.0.0.1'', remotePort = Some 80\<rparr>"]
          setupPortForward_failures [of 0 two_shells
            "\<lparr>localPort = Some 9000, remoteHost = Some ''127.0.0.1'', remotePort = Some 80\<rparr>"]
          setupPortForward_failures [of 0 two_shells
            "\<lparr>localPort = Some 9001, remoteHost = Some ''127.0.0.1'', remotePort = Some 80\<rparr>"
            _ "Error ''EADDRINUSE''"]
          setupPortForward_failures [of 0 two_shells
            "\<lparr>localPort = Some 70000, remoteHost = Some ''127.0.0.1'', remotePort = Some 80\<rparr>"
            "RangeError ''options.port should be >= 0 and < 65536. Received type number (70000).''"]
          h1 h2 p0 p4
    by (simp add: case_prod_beta two_shells_conn two_shells_next listen_throws_examples)
qed

text \<open>
  At the handler: an \<^verbatim>\<open>ssh_port_forward\<close> request of a connected client for a port above
  65535 is answered at once with \<^verbatim>\<open>success: false\<close> and the error's message, and no
  forward is registered.
\<close>

lemma port_forward_out_of_range_reply:
  "outbox (snd (handle 7 ''c1'' (port_forward_msg 70000) two_shells)) =
     outbox two_shells @
       [(7, SshPortForwardResponse False (Some 70000)
              (Some ''options.port should be >= 0 and < 65536. Received type number (70000).''))]"
  "portForwards (conn_heap (snd (handle 7 ''c1'' (port_forward_msg 70000) two_shells)) 0) =
     [(Some 9000, 0)]"
proof -
  have g: "getConnection ''c1'' two_shells = (0, two_shells)"
    by (simp add: getConnection_def map_get_def two_shells_registry)
  have c: "connected (conn_heap two_shells 0)"
    "\<not> map_has (portForwards (conn_heap two_shells 0)) (Some 70000)"
    by (simp_all add: map_has_def two_shells_conn)
  have s: "setupPortForward 0
      \<lparr>localPort = Some 70000, remoteHost = Some ''127.0.0.1'', remotePort = Some 80\<rparr> two_shells =
      (next_promise two_shells,
       two_shells\<lparr>promise_heap := (promise_heap two_shells)(next_promise two_shells :=
            \<lparr>p_state = Rejected (RangeError
               ''options.port should be >= 0 and < 65536. Received type number (70000).''),
             p_waiter = None\<rparr>),
          next_promise := Suc (next_promise two_shells),
          server_heap := (server_heap two_shells)(next_server two_shells :=
             \<lparr>sv_conn = 0,
              sv_config = \<lparr>localPort = Some 70000, remoteHost = Some ''127.0.0.1'',
                           remotePort = Some 80\<rparr>,
              sv_promise = next_promise two_shells,
              sv_listen = Some 70000, sv_close_calls = 0\<rparr>),
          next_server := Suc (next_server two_shells)\<rparr>)"
    using c by (simp add: setupPortForward_listen_throws listen_throws_examples)
  have h: "handle 7 ''c1'' (port_forward_msg 70000) two_shells =
      handlePortForward 7 ''c1'' (port_forward_msg 70000) two_shells"
    by (simp add: handle_def port_forward_msg_def)
  show "outbox (snd (handle 7 ''c1'' (port_forward_msg 70000) two_shells)) =
     outbox two_shells @
       [(7, SshPortForwardResponse False (Some 70000)
              (Some ''options.port should be >= 0 and < 65536. Received type number (70000).''))]"
    unfolding h using c(1)
    by (simp add: handlePortForward_def port_forward_msg_def destructure_def
          opt_field_def no_fields_def g isConnected_def s await_def send_def)
  show "portForwards (conn_heap (snd (handle 7 ''c1'' (port_forward_msg 70000) two_shells)) 0) =
     [(Some 9000, 0)]"
    unfolding h using c(1)
    by (simp add: handlePortForward_def port_forward_msg_def destructure_def
          opt_field_def no_fields_def g isConnected_def s await_def send_def two_shells_conn)
qed

section \<open>Independence of shell sessions\<close>

text \<open>
  Claim C7. \<^verbatim>\<open>closeShell(sessionId)\<close> removes only the named session. Every other session
  id of the shell map still maps to the same stream, is still reported by \<^verbatim>\<open>hasShell\<close>
  and \<^verbatim>\<open>getActiveShells()\<close> (which loses exactly \<^verbatim>\<open>sessionId\<close> and keeps its order), and
  \<^verbatim>\<open>writeToShell\<close> on it returns true and writes to that stream; the port-forward map and
  all listeners are unchanged, and no stream other than the one closed is touched.
\<close>

theorem closeShell_frame:
  assumes "other \<noteq> sessionId" and "hasShell c other w"
  shows "case closeShell c sessionId w of (closed, w') \<Rightarrow>
     map_get (shells (conn_heap w' c)) other = map_get (shells (conn_heap w c)) other \<and>
     hasShell c other w' \<and>
     other \<in> set (getActiveShells c w') \<and>
     getActiveShells c w' = removeAll sessionId (getActiveShells c w) \<and>
     (\<exists>h. map_get (shells (conn_heap w c)) other = Some h \<and>
          writeToShell c other d w' = (True, stream_write h d w')) \<and>
     portForwards (conn_heap w' c) = portForwards (conn_heap w c) \<and>
     server_heap w' = server_heap w \<and>
     (\<forall>h. map_get (shells (conn_heap w c)) sessionId \<noteq> Some h \<longrightarrow>
          stream_heap w' h = stream_heap w h)"
proof -
  from assms(2) obtain h where h: "map_get (shells (conn_heap w c)) other = Some h"
    by (auto simp: hasShell_def map_has_def map_get_def split: option.splits)
  from assms(2) have k: "other \<in> set (map_keys (shells (conn_heap w c)))"
    by (simp add: hasShell_def has_iff_key)
  show ?thesis
  proof (cases "map_get (shells (conn_heap w c)) sessionId")
    case None
    then have "sessionId \<notin> set (map_keys (shells (conn_heap w c)))"
      by (simp add: map_get_def map_keys_def map_of_eq_None_iff)
    with None h k assms(2) show ?thesis
      by (simp add: closeShell_def getActiveShells_def writeToShell_def)
  next
    case (Some g)
    let ?w' = "upd_conn c (\<lambda>k. k\<lparr>shells := map_delete (shells k) sessionId\<rparr>) (stream_close g w)"
    have cs: "closeShell c sessionId w = (True, ?w')"
      using Some by (simp add: closeShell_def)
    have sh: "shells (conn_heap ?w' c) = map_delete (shells (conn_heap w c)) sessionId"
      by simp
    have g1: "map_get (shells (conn_heap ?w' c)) other = Some h"
      using h assms(1) by (simp add: map_get_def map_delete_def)
    have g2: "getActiveShells c ?w' = removeAll sessionId (getActiveShells c w)"
      by (simp add: getActiveShells_def map_keys_def map_delete_def keys_delete)
    have g3: "other \<in> set (getActiveShells c ?w')"
      using k assms(1) unfolding g2 by (simp add: getActiveShells_def)
    have g4: "hasShell c other ?w'"
      using g3 by (simp add: hasShell_def has_iff_key getActiveShells_def)
    have g5: "writeToShell c other d ?w' = (True, stream_write h d ?w')"
      using g1 by (simp add: writeToShell_def)
    have g6: "portForwards (conn_heap ?w' c) = portForwards (conn_heap w c)"
      by simp
    have g7: "server_heap ?w' = server_heap w"
      by (simp add: upd_conn_def stream_close_def upd_stream_def)
    have g8: "\<forall>x. x \<noteq> g \<longrightarrow> stream_heap ?w' x = stream_heap w x"
      by (simp add: upd_conn_def stream_close_def upd_stream_def)
    from h g1 g2 g3 g4 g5 g6 g7 g8 Some show ?thesis
      by (simp add: cs)
  qed
qed

theorem closeShell_frame_witness:
  "''b'' \<noteq> ''a'' \<and> hasShell 0 ''b'' two_shells \<and>
   getActiveShells 0 (snd (closeShell 0 ''a'' two_shells)) = [''b''] \<and>
   map_get (shells (conn_heap (snd (closeShell 0 ''a'' two_shells)) 0)) ''b'' = Some 1 \<and>
   writeToShell 0 ''b'' (Some ''ls'') (snd (closeShell 0 ''a'' two_shells)) =
     (True, stream_write 1 (Some ''ls'') (snd (closeShell 0 ''a'' two_shells))) \<and>
   portForwards (conn_heap (snd (closeShell 0 ''a'' two_shells)) 0) = [(Some 9000, 0)] \<and>
   stream_heap (snd (closeShell 0 ''a'' two_shells)) 1 = stream_heap two_shells 1"
proof -
  have h1: "''b'' \<noteq> ''a''" by simp
  have h2: "hasShell 0 ''b'' two_shells"
    by (simp add: hasShell_def map_has_def two_shells_conn)
  have a: "map_get (shells (conn_heap two_shells 0)) ''a'' = Some 0"
    and b: "map_get (shells (conn_heap two_shells 0)) ''b'' = Some 1"
    by (simp_all add: map_get_def two_shells_conn)
  from closeShell_frame [OF h1 h2, where d = "Some ''ls''"] h1 h2 a b
  show ?thesis
    by (simp add: case_prod_beta getActiveShells_def map_keys_def two_shells_conn)
qed

text \<open>
  Claim C10. When the client's connection is connected, the session id of an
  \<^verbatim>\<open>ssh_input\<close> message (defaulted to \<^verbatim>\<open>default\<close>) is not a key of the shell map and the map
  is not empty, \<^verbatim>\<open>handleInput\<close> writes the input to the stream of the first entry of the
  map, a session with a different id, through the legacy \<^verbatim>\<open>write\<close>; nothing is sent back
  and nothing else changes.
\<close>

theorem handleInput_falls_back_to_first_shell:
  assumes "map_get (connections w) clientId = Some c"
    and "isConnected c w"
    and "\<not> hasShell c (or_str (opt_field d_sessionId (msg_data message)) ''default'') w"
    and "shells (conn_heap w c) = (first, h) # rest"
    and "input_arg (input_of (msg_data message)) = Inr d"
  shows "handleInput clientId message w = (None, stream_write h d w) \<and>
         first \<noteq> or_str (opt_field d_sessionId (msg_data message)) ''default'' \<and>
         st_written (stream_heap (stream_write h d w) h) = st_written (stream_heap w h) @ [d] \<and>
         conn_heap (stream_write h d w) = conn_heap w \<and>
         outbox (stream_write h d w) = outbox w"
proof -
  let ?sid = "or_str (opt_field d_sessionId (msg_data message)) ''default''"
  have g: "getConnection clientId w = (c, w)"
    using assms(1) by (simp add: getConnection_def)
  have none: "map_get (shells (conn_heap w c)) ?sid = None"
    using assms(3) by (simp add: hasShell_def map_has_def map_get_def split: option.splits)
  have wr: "writeToShell c ?sid d w = (False, w)"
    using none by (simp add: writeToShell_def)
  have lg: "write_legacy c d w = stream_write h d w"
    using assms(4) by (simp add: write_legacy_def map_values_def)
  have "handleInput clientId message w = (None, stream_write h d w)"
    using assms(2,5) by (simp add: handleInput_def g wr lg)
  moreover have "first \<noteq> ?sid"
    using none assms(4) by (auto simp: map_get_def)
  ultimately show ?thesis
    by (simp add: stream_write_def upd_stream_def)
qed


theorem handleInput_falls_back_to_first_shell_witness:
  "map_get (connections two_shells) ''c1'' = Some 0 \<and> isConnected 0 two_shells \<and>
   \<not> hasShell 0 ''zz'' two_shells \<and>
   shells (conn_heap two_shells 0) = (''a'', 0) # [(''b'', 1)] \<and>
   handleInput ''c1'' (input_msg ''zz'' ''ls'') two_shells =
     (None, stream_write 0 (Some ''ls'') two_shells) \<and>
   st_written (stream_heap (stream_write 0 (Some ''ls'') two_shells) 0) = [Some ''ls'']"
proof -
  have s: "or_str (opt_field d_sessionId (msg_data (input_msg ''zz'' ''ls''))) ''default'' = ''zz''"
    by (simp add: input_msg_def or_str_def opt_field_def no_fields_def)
  have h1: "map_get (connections two_shells) ''c1'' = Some 0"
    by (simp add: map_get_def two_shells_registry)
  have h2: "isConnected 0 two_shells"
    by (simp add: isConnected_def two_shells_conn)
  have h3: "\<not> hasShell 0 ''zz'' two_shells"
    by (simp add: hasShell_def map_has_def two_shells_conn)
  have h3': "\<not> hasShell 0 (or_str (opt_field d_sessionId (msg_data (input_msg ''zz'' ''ls'')))
               ''default'') two_shells"
    unfolding s by (rule h3)
  have h4: "shells (conn_heap two_shells 0) = (''a'', 0) # [(''b'', 1)]"
    by (simp add: two_shells_conn)
  have h5: "input_arg (input_of (msg_data (input_msg ''zz'' ''ls''))) = Inr (Some ''ls'')"
    by (simp add: input_msg_def input_arg_def input_of_def no_fields_def)
  from handleInput_falls_back_to_first_shell [OF h1 h2 h3' h4 h5] h1 h2 h3 h4
  show ?thesis
    by (simp add: two_shells_streams)
qed

section \<open>Closure notifications\<close>

lemma on_stream_close_outbox:
  "st_onClose (stream_heap w h) = SendShellClosed ws sid \<Longrightarrow>
   outbox (on_stream_close h w) = outbox w @ [(ws, SshShellClosed sid None)]"
  by (simp add: on_stream_close_def Let_def send_def upd_conn_def)

lemma handleCloseShell_open_session:
  assumes "map_get (connections w) clientId = Some c" and "isConnected c w"
    and "map_get (shells (conn_heap w c)) sessionId = Some h" and "sessionId \<noteq> []"
  shows "handle ws clientId (close_shell_msg sessionId) w =
           (None, send ws (SshShellClosed sessionId (Some True))
                    (upd_conn c (\<lambda>k. k\<lparr>shells := map_delete (shells k) sessionId\<rparr>)
                       (stream_close h w)))"
proof -
  have g: "getConnection clientId w = (c, w)"
    using assms(1) by (simp add: getConnection_def)
  have s: "opt_field d_sessionId (msg_data (close_shell_msg sessionId)) = Some sessionId"
    by (simp add: close_shell_msg_def opt_field_def no_fields_def)
  have t: "handle ws clientId (close_shell_msg sessionId) w =
             handleCloseShell ws clientId (close_shell_msg sessionId) w"
    by (simp add: handle_def close_shell_msg_def)
  show ?thesis
    using assms(2,3,4) by (simp add: t handleCloseShell_def g s closeShell_def)
qed

text \<open>
  Claim C5, as the code has it. For a session opened through \<^verbatim>\<open>handleStartShell\<close> (its
  stream's \<^verbatim>\<open>onClose\<close> sends \<^verbatim>\<open>ssh_shell_closed\<close> for its session id), each \<^verbatim>\<open>'close'\<close> event
  of the stream sends exactly one \<^verbatim>\<open>ssh_shell_closed {sessionId}\<close> notification. An
  \<^verbatim>\<open>ssh_close_shell\<close> request for an open session of a connected client sends exactly
  one reply \<^verbatim>\<open>ssh_shell_closed {sessionId, success: true}\<close> of its own; when the
  stream's \<^verbatim>\<open>'close'\<close> event follows, the client has received two \<^verbatim>\<open>ssh_shell_closed\<close>
  messages for that session: the reply and the notification.
\<close>

theorem shell_closed_reply_and_notification:
  assumes "map_get (connections w) clientId = Some c" and "isConnected c w"
    and "map_get (shells (conn_heap w c)) sessionId = Some h" and "sessionId \<noteq> []"
    and "st_onClose (stream_heap w h) = SendShellClosed ws' sessionId"
  shows "outbox (on_stream_close h w) = outbox w @ [(ws', SshShellClosed sessionId None)] \<and>
         outbox (snd (handle ws clientId (close_shell_msg sessionId) w)) =
           outbox w @ [(ws, SshShellClosed sessionId (Some True))] \<and>
         outbox (run w [Msg ws clientId (close_shell_msg sessionId), StreamClose h]) =
           outbox w @ [(ws, SshShellClosed sessionId (Some True)),
                       (ws', SshShellClosed sessionId None)] \<and>
         shell_closed_count sessionId
             (run w [Msg ws clientId (close_shell_msg sessionId), StreamClose h]) =
           shell_closed_count sessionId w + 2"
proof -
  let ?w1 = "send ws (SshShellClosed sessionId (Some True))
               (upd_conn c (\<lambda>k. k\<lparr>shells := map_delete (shells k) sessionId\<rparr>)
                  (stream_close h w))"
  have hd: "handle ws clientId (close_shell_msg sessionId) w = (None, ?w1)"
    using assms(1-4) by (rule handleCloseShell_open_session)
  have a: "outbox (on_stream_close h w) = outbox w @ [(ws', SshShellClosed sessionId None)]"
    using assms(5) by (rule on_stream_close_outbox)
  have o1: "outbox ?w1 = outbox w @ [(ws, SshShellClosed sessionId (Some True))]"
    by (simp add: send_def upd_conn_def stream_close_def upd_stream_def)
  have "st_onClose (stream_heap ?w1 h) = SendShellClosed ws' sessionId"
    using assms(5) by (simp add: send_def upd_conn_def stream_close_def upd_stream_def)
  then have o2: "outbox (on_stream_close h ?w1) =
      outbox ?w1 @ [(ws', SshShellClosed sessionId None)]"
    by (rule on_stream_close_outbox)
  have r: "run w [Msg ws clientId (close_shell_msg sessionId), StreamClose h] =
      on_stream_close h ?w1"
    by (simp add: run_def hd)
  have c: "outbox (run w [Msg ws clientId (close_shell_msg sessionId), StreamClose h]) =
           outbox w @ [(ws, SshShellClosed sessionId (Some True)),
                       (ws', SshShellClosed sessionId None)]"
    by (simp add: r o2 o1)
  have d: "shell_closed_count sessionId
             (run w [Msg ws clientId (close_shell_msg sessionId), StreamClose h]) =
           shell_closed_count sessionId w + 2"
    by (simp add: shell_closed_count_def c)
  from a o1 c d show ?thesis by (simp add: hd)
qed

theorem shell_closed_reply_and_notification_witness:
  "map_get (connections two_shells) ''c1'' = Some 0 \<and> isConnected 0 two_shells \<and>
   map_get (shells (conn_heap two_shells 0)) ''a'' = Some 0 \<and>
   st_onClose (stream_heap two_shells 0) = SendShellClosed 7 ''a'' \<and>
   outbox (run two_shells [Msg 7 ''c1'' (close_shell_msg ''a''), StreamClose 0]) =
     outbox two_shells @ [(7, SshShellClosed ''a'' (Some True)), (7, SshShellClosed ''a'' None)]"
proof -
  have h1: "map_get (connections two_shells) ''c1'' = Some 0"
    by (simp add: map_get_def two_shells_registry)
  have h2: "isConnected 0 two_shells"
    by (simp add: isConnected_def two_shells_conn)
  have h3: "map_get (shells (conn_heap two_shells 0)) ''a'' = Some 0"
    by (simp add: map_get_def two_shells_conn)
  have h4: "''a'' \<noteq> []" by simp
  have h5: "st_onClose (stream_heap two_shells 0) = SendShellClosed 7 ''a''"
    by (simp add: two_shells_streams)
  from shell_closed_reply_and_notification [OF h1 h2 h3 h4 h5, of 7] h1 h2 h3 h5
  show ?thesis by simp
qed

text \<open>
  The run \<open>explicit_close_trace\<close>: one shell session, closed by an \<^verbatim>\<open>ssh_close_shell\<close>
  request. The client receives two \<^verbatim>\<open>ssh_shell_closed\<close> messages for \<^verbatim>\<open>s1\<close>, not one.
\<close>

theorem shell_closed_twice_counterexample:
  "outbox (run init_world explicit_close_trace) =
     [(7, SshConnectResponse True None), (7, SshShellStarted ''s1''),
      (7, SshShellClosed ''s1'' (Some True)), (7, SshShellClosed ''s1'' None)] \<and>
   shell_closed_count ''s1'' (run init_world explicit_close_trace) = 2"
proof -
  have "outbox (run init_world explicit_close_trace) =
     [(7, SshConnectResponse True None), (7, SshShellStarted ''s1''),
      (7, SshShellClosed ''s1'' (Some True)), (7, SshShellClosed ''s1'' None)]"
    by (simp add: explicit_close_trace_def model_defs msg_defs)
  then show ?thesis
    by (simp add: shell_closed_count_def)
qed

section \<open>Requests without a reply\<close>

lemma handleCloseShell_silent:
  assumes "getConnection clientId w = (c, w1)"
    and "\<not> isConnected c w1 \<or> \<not> truthy_str (opt_field d_sessionId (msg_data message))"
  shows "handleCloseShell ws clientId message w = (None, w1) \<and> outbox w1 = outbox w"
proof -
  have "outbox w1 = outbox w"
    using assms(1) by (auto simp: getConnection_def Let_def split: option.splits)
  moreover have "handleCloseShell ws clientId message w = (None, w1)"
    using assms by (auto simp: handleCloseShell_def truthy_str_def split: option.splits)
  ultimately show ?thesis by simp
qed

text \<open>
  Claim C6 at its failing inputs. An \<^verbatim>\<open>ssh_close_shell\<close> request of a client whose
  connection is not connected is handled without an error and without any message
  sent, and so is an \<^verbatim>\<open>ssh_close_shell\<close> request with no data of a connected client. The
  sibling request \<^verbatim>\<open>ssh_start_shell\<close> of the same unconnected client is answered with
  an \<^verbatim>\<open>ssh_status\<close> error.
\<close>

theorem close_shell_gets_no_reply:
  "handle 7 ''c1'' (close_shell_msg ''s1'') init_world =
     (None, snd (getConnection ''c1'' init_world)) \<and>
   outbox (snd (handle 7 ''c1'' (close_shell_msg ''s1'') init_world)) = [] \<and>
   handle 7 ''c1'' \<lparr>msg_type = ''ssh_close_shell'', msg_data = NoData\<rparr> two_shells =
     (None, two_shells) \<and>
   outbox (snd (handle 7 ''c1'' (start_shell_msg ''s1'') init_world)) =
     [(7, SshStatus ''error'' ''SSH not connected'')]"
proof -
  have a: "handle 7 ''c1'' (close_shell_msg ''s1'') init_world =
     (None, snd (getConnection ''c1'' init_world))"
    by (simp add: model_defs msg_defs)
  have b: "outbox (snd (getConnection ''c1'' init_world)) = []"
    by (simp add: model_defs)
  have c: "handle 7 ''c1'' \<lparr>msg_type = ''ssh_close_shell'', msg_data = NoData\<rparr> two_shells =
     (None, two_shells)"
    by (simp add: handle_def handleCloseShell_def getConnection_def map_get_def
          two_shells_registry opt_field_def)
  have d: "outbox (snd (handle 7 ''c1'' (start_shell_msg ''s1'') init_world)) =
     [(7, SshStatus ''error'' ''SSH not connected'')]"
    by (simp add: model_defs msg_defs)
  from a b c d show ?thesis by simp
qed

section \<open>The connect timeout\<close>

lemma connect_readyTimeout:
  "cc_readyTimeout (connectionConfig config) = 30000"
  "cl_connect_calls (client (conn_heap (snd (connect c config w)) c)) =
     cl_connect_calls (client (conn_heap w c)) @ [connectionConfig config]"
  by (simp_all add: connectionConfig_def connect_def new_promise_def Let_def)

section \<open>Token check\<close>

text \<open>
  Claim C8. With no secret configured (\<^verbatim>\<open>CONFIG.authToken\<close> undefined or the empty string)
  \<^verbatim>\<open>validateToken\<close> accepts every token; with a non-empty secret it returns true exactly
  when the token is that secret.
\<close>

theorem validateToken_spec:
  "validateToken None token \<and> validateToken (Some []) token \<and>
   (secret \<noteq> [] \<longrightarrow> validateToken (Some secret) token = (token = Some secret))"
  by (simp add: validateToken_def truthy_str_def)

theorem validateToken_spec_witness:
  "validateToken (Some []) (Some ''any-token'') \<and>
   validateToken (Some ''test-token'') (Some ''test-token'') \<and>
   \<not> validateToken (Some ''test-token'') (Some ''wrong-token'')"
  using validateToken_spec [of "Some ''any-token''" "''test-token''"]
        validateToken_spec [of "Some ''test-token''" "''test-token''"]
        validateToken_spec [of "Some ''wrong-token''" "''test-token''"]
  by simp

end
